theory Spec2Isabelle
  imports Main
begin

section \<open>Cells of the spreadsheet\<close>

text \<open>
  The backing store is a spreadsheet. A cell read through the client library is either a
  number or a text; the program calls \<open>str\<close>, \<open>int\<close> and \<open>isdigit\<close> on what it reads.
  Numbers are modelled as \<open>int\<close> (Python integers are unbounded), texts as \<open>string\<close>,
  the bytes of their UTF-8 encoding.
\<close>

datatype cell = I int | S string

definition is_ascii_digit :: "char \<Rightarrow> bool" where
  "is_ascii_digit c = (c \<in> set ''0123456789'')"

definition digit_val :: "char \<Rightarrow> nat" where
  "digit_val c = of_char c - 48"

text \<open>A non-empty text all of whose characters are ASCII digits.\<close>

definition isdigit :: "string \<Rightarrow> bool" where
  "isdigit s = (s \<noteq> [] \<and> list_all is_ascii_digit s)"

text \<open>The decimal value of a digit string, most significant digit first.\<close>

definition dec_val :: "string \<Rightarrow> nat" where
  "dec_val s = foldl (\<lambda>acc c. 10 * acc + digit_val c) 0 s"

text \<open>\<open>str(i).isdigit()\<close> and \<open>int(i)\<close> on a cell that is a number or an ASCII text
  of at most 640 digits or characters: the text of a number is a digit string exactly when
  the number is not negative. The two functions on every cell, with the digits outside
  ASCII and the \<open>ValueError\<close> of \<open>int\<close> and \<open>str\<close>, are \<open>cell_isdigit_ucd\<close> and
  \<open>cell_int_ucd\<close> below.\<close>

fun cell_isdigit :: "cell \<Rightarrow> bool" where
  "cell_isdigit (I n) = (0 \<le> n)"
| "cell_isdigit (S s) = isdigit s"

fun cell_int :: "cell \<Rightarrow> int" where
  "cell_int (I n) = n"
| "cell_int (S s) = int (dec_val s)"

section \<open>Identifier assignment\<close>

text \<open>
  \<open>max(xs, default=0)\<close> of Python, as the left-to-right scan it is.
\<close>

fun max_default :: "int \<Rightarrow> int list \<Rightarrow> int" where
  "max_default d [] = d"
| "max_default d (x # xs) = foldl max x xs"

text \<open>
  The value of \<open>_get_next_id\<close> on an identifier column (\<open>sheet.col_values(1)[1:]\<close>) of
  numbers and ASCII texts of at most 640 digits or characters (\<open>plain_cell\<close> below), on
  which it always returns; the handlers below are modelled on such sheets.
  \<open>get_next_id_ucd\<close> below is the function on every column, with the \<open>ValueError\<close> it
  can raise, and the two agree on these columns (lemma \<open>get_next_id_plain\<close>).
\<close>

definition get_next_id :: "cell list \<Rightarrow> int" where
  "get_next_id ids =
     (if ids = [] then 1
      else max_default 0 (map cell_int (filter cell_isdigit ids)) + 1)"

section \<open>The remote store\<close>

text \<open>
  Three worksheets hold the data. A worksheet is the list of its data rows: the row that
  the client library addresses as \<open>r\<close> (1-based, row 1 being the header) is the element
  \<open>r - 2\<close> of the list. Every call on a worksheet is also appended to a log, so that
  the number and the order of the remote calls can be stated.
\<close>

datatype sheet = Equipamentos | Movimentacoes | MovSetores

datatype call =
    ColValues sheet
  | UpdateCell sheet nat nat cell
  | UpdateRange sheet nat "cell list"
  | AppendRow sheet "cell list"
  | AppendRows sheet "cell list list"
  | BatchUpdate sheet "(nat \<times> cell) list"

record store =
  rows :: "sheet \<Rightarrow> cell list list"
  log :: "call list"

definition blank :: cell where
  "blank = S []"

text \<open>Writing position \<open>i\<close> of a list, which grows by blanks when it is too short
  (a write below the last data row, or right of the last column, lands on empty cells).\<close>

definition put :: "'a \<Rightarrow> nat \<Rightarrow> 'a \<Rightarrow> 'a list \<Rightarrow> 'a list" where
  "put b i v xs = (xs @ replicate (Suc i - length xs) b)[i := v]"

definition put_cell :: "nat \<Rightarrow> nat \<Rightarrow> cell \<Rightarrow> cell list list \<Rightarrow> cell list list" where
  "put_cell r c v rs =
     (if r < 2 \<or> c < 1 then rs
      else put [] (r - 2)
             (put blank (c - 1) v (if r - 2 < length rs then rs ! (r - 2) else [])) rs)"

definition first_col :: "cell list \<Rightarrow> cell" where
  "first_col row = (case row of [] \<Rightarrow> blank | c # _ \<Rightarrow> c)"

text \<open>\<open>sheet.col_values(1)[1:]\<close>: a read, which leaves the rows as they are.\<close>

definition col_values1 :: "sheet \<Rightarrow> store \<Rightarrow> cell list \<times> store" where
  "col_values1 sh st = (map first_col (rows st sh), st\<lparr>log := log st @ [ColValues sh]\<rparr>)"




definition append_row :: "sheet \<Rightarrow> cell list \<Rightarrow> store \<Rightarrow> store" where
  "append_row sh row st =
     st\<lparr>rows := (rows st)(sh := rows st sh @ [row]), log := log st @ [AppendRow sh row]\<rparr>"


text \<open>\<open>_get_next_id(sheet)\<close> as the program calls it: one read of the identifier
  column, then the computation above.\<close>

definition next_id :: "sheet \<Rightarrow> store \<Rightarrow> int \<times> store" where
  "next_id sh st = (let (ids, st') = col_values1 sh st in (get_next_id ids, st'))"

section \<open>Errors and outcomes\<close>

text \<open>
  Every early \<open>return\<close> after a warning or error dialog is a rejection; the constructor
  records which check fired. \<open>InsufficientStock\<close> and \<open>InvalidQuantity\<close> carry the name of
  the offending item, as the dialogs do.
\<close>

datatype error =
    MissingField
  | IncompleteKit
  | InvalidRoute
  | InvalidValue
  | InvalidQuantity cell
  | InsufficientStock cell
  | NothingSelected
  | RecordNotFound
  | InvalidDateFormat
  | ReportFailure
  | ValueError

section \<open>Identifier assignment on any text\<close>

text \<open>
  A text of Python is a sequence of Unicode code points; a text cell holds its UTF-8
  bytes. \<open>utf8_decode\<close> gives the code points back (\<open>None\<close> for bytes that are no
  UTF-8, which no text has).
\<close>

definition seq_len :: "nat \<Rightarrow> nat" where
  "seq_len b =
     (if b < 128 then 1 else if 194 \<le> b \<and> b < 224 then 2
      else if 224 \<le> b \<and> b < 240 then 3 else if 240 \<le> b \<and> b < 245 then 4 else 0)"

definition lead_bits :: "nat \<Rightarrow> nat" where
  "lead_bits b =
     (if b < 128 then b else if b < 224 then b - 192 else if b < 240 then b - 224 else b - 240)"

definition code_point :: "nat \<Rightarrow> nat list \<Rightarrow> nat option" where
  "code_point b cs =
     (let cp = foldl (\<lambda>a c. a * 64 + (c - 128)) (lead_bits b) cs
      in if list_all (\<lambda>c. 128 \<le> c \<and> c < 192) cs
            \<and> (length cs = 1 \<longrightarrow> 128 \<le> cp) \<and> (length cs = 2 \<longrightarrow> 2048 \<le> cp)
            \<and> (length cs = 3 \<longrightarrow> 65536 \<le> cp)
            \<and> \<not> (55296 \<le> cp \<and> cp < 57344) \<and> cp \<le> 1114111
         then Some cp else None)"

function utf8_decode :: "nat list \<Rightarrow> nat list option" where
  "utf8_decode [] = Some []"
| "utf8_decode (b # bs) =
     (if seq_len b = 0 \<or> length bs < seq_len b - 1 then None
      else case code_point b (take (seq_len b - 1) bs) of
             None \<Rightarrow> None
           | Some cp \<Rightarrow> map_option ((#) cp) (utf8_decode (drop (seq_len b - 1) bs)))"
  by pat_completeness auto
termination
  by (relation "measure length") auto

text \<open>
  What \<open>str.isdigit\<close>, \<open>int\<close> and \<open>str\<close> consult in the interpreter.

  From the Unicode database, whether a character is a digit, and its value when it is a
  decimal digit. The database grows with the interpreter's version, so from the code point
  256 on it is a parameter. Below 256 it is fixed: \<open>0\<close> to \<open>9\<close> are the decimal digits 0
  to 9, the superscripts two, three and one (U+00B2, U+00B3, U+00B9) are digits with no
  decimal value, and there is no other digit. Every decimal digit is a digit.

  And the limit on the number of digits of a conversion between \<open>int\<close> and \<open>str\<close>
  (\<open>sys.get_int_max_str_digits()\<close>): 0 when there is none, and at least 640 otherwise
  (4300 unless configured, from Python 3.11 on). A conversion of more digits than the
  limit raises \<open>ValueError\<close>; one of 640 digits or less is never checked.
\<close>

record ucd =
  ud_digit :: "nat \<Rightarrow> bool"
  ud_decimal :: "nat \<Rightarrow> nat option"
  ud_max_str_digits :: nat

definition over_limit :: "ucd \<Rightarrow> nat \<Rightarrow> bool" where
  "over_limit ud n = (0 < ud_max_str_digits ud \<and> max 640 (ud_max_str_digits ud) < n)"

definition char_decimal :: "ucd \<Rightarrow> nat \<Rightarrow> nat option" where
  "char_decimal ud cp =
     (if cp < 256 then (if 48 \<le> cp \<and> cp \<le> 57 then Some (cp - 48) else None)
      else ud_decimal ud cp)"

definition char_isdigit :: "ucd \<Rightarrow> nat \<Rightarrow> bool" where
  "char_isdigit ud cp =
     (if cp < 256 then (48 \<le> cp \<and> cp \<le> 57) \<or> cp = 178 \<or> cp = 179 \<or> cp = 185
      else ud_digit ud cp \<or> ud_decimal ud cp \<noteq> None)"

text \<open>The number of decimal digits of a natural number.\<close>

function ndigits :: "nat \<Rightarrow> nat" where
  "ndigits n = (if n < 10 then 1 else Suc (ndigits (n div 10)))"
  by auto
termination
  by (relation "measure id") auto

declare ndigits.simps [simp del]

text \<open>\<open>str(i)\<close> raises \<open>ValueError\<close>: on a number of more digits than the limit.\<close>

fun str_raises :: "ucd \<Rightarrow> cell \<Rightarrow> bool" where
  "str_raises ud (I n) = over_limit ud (ndigits (nat \<bar>n\<bar>))"
| "str_raises ud (S s) = False"

text \<open>\<open>str(i).isdigit()\<close> on a cell of which \<open>str\<close> returns.\<close>

fun cell_isdigit_ucd :: "ucd \<Rightarrow> cell \<Rightarrow> bool" where
  "cell_isdigit_ucd ud (I n) = (0 \<le> n)"
| "cell_isdigit_ucd ud (S s) =
     (case utf8_decode (map of_char s) of
        None \<Rightarrow> False
      | Some cps \<Rightarrow> cps \<noteq> [] \<and> list_all (char_isdigit ud) cps)"

text \<open>
  \<open>int(i)\<close> on a cell that passed \<open>isdigit\<close>: a number is returned as it is; a text made
  of digits only converts when each of them is a decimal digit and they are not more than
  the limit, and raises \<open>ValueError\<close> (\<open>None\<close>) otherwise.
\<close>

fun cell_int_ucd :: "ucd \<Rightarrow> cell \<Rightarrow> int option" where
  "cell_int_ucd ud (I n) = Some n"
| "cell_int_ucd ud (S s) =
     (case utf8_decode (map of_char s) of
        None \<Rightarrow> None
      | Some cps \<Rightarrow>
          if over_limit ud (length cps) then None
          else (case those (map (char_decimal ud) cps) of
                  None \<Rightarrow> None
                | Some ds \<Rightarrow> Some (int (foldl (\<lambda>acc d. 10 * acc + d) 0 ds))))"

text \<open>
  The list comprehension \<open>[int(i) for i in ids if str(i).isdigit()]\<close>: the entries are
  visited in order, the ones that pass \<open>isdigit\<close> are converted, and the first call that
  raises ends the evaluation (\<open>None\<close>).
\<close>

fun int_ids :: "ucd \<Rightarrow> cell list \<Rightarrow> int list option" where
  "int_ids ud [] = Some []"
| "int_ids ud (c # cs) =
     (if str_raises ud c then None
      else if cell_isdigit_ucd ud c
           then (case cell_int_ucd ud c of
                   None \<Rightarrow> None
                 | Some n \<Rightarrow> map_option ((#) n) (int_ids ud cs))
           else int_ids ud cs)"

text \<open>\<open>_get_next_id\<close> on every identifier column.\<close>

definition get_next_id_ucd :: "ucd \<Rightarrow> cell list \<Rightarrow> error + int" where
  "get_next_id_ucd ud ids =
     (if ids = [] then Inr 1
      else case int_ids ud ids of
             None \<Rightarrow> Inl ValueError
           | Some ns \<Rightarrow> Inr (max_default 0 ns + 1))"

text \<open>A cell of the columns the handlers are modelled on: a number of at most 640 digits,
  or an ASCII text of at most 640 characters.\<close>

fun plain_cell :: "cell \<Rightarrow> bool" where
  "plain_cell (I n) = (ndigits (nat \<bar>n\<bar>) \<le> 640)"
| "plain_cell (S s) = (length s \<le> 640 \<and> list_all (\<lambda>c. (of_char c :: nat) < 128) s)"

text \<open>An interpreter for the examples: the Arabic-Indic digits (U+0660 to U+0669) are
  decimal digits, the circled digits one to nine (U+2460 to U+2468) are digits with no
  decimal value, and the limit is 4300 digits.\<close>

definition ucd_exemplo :: ucd where
  "ucd_exemplo =
     \<lparr>ud_digit = (\<lambda>cp. 9312 \<le> cp \<and> cp \<le> 9320),
      ud_decimal = (\<lambda>cp. if 1632 \<le> cp \<and> cp \<le> 1641 then Some (cp - 1632) else None),
      ud_max_str_digits = 4300\<rparr>"

text \<open>The texts superscript two, Arabic-Indic 34, and 4301 times the digit 7.\<close>

definition sup2 :: string where
  "sup2 = [CHR 0xC2, CHR 0xB2]"

definition arabic34 :: string where
  "arabic34 = [CHR 0xD9, CHR 0xA3, CHR 0xD9, CHR 0xA4]"

definition setes :: string where
  "setes = replicate 4301 (CHR ''7'')"


section \<open>Reading integers and trimming texts\<close>

text \<open>
  \<open>str.strip()\<close> removes the ASCII white space at both ends: space, tab, line feed,
  vertical tab, form feed and carriage return.
\<close>

definition is_space :: "char \<Rightarrow> bool" where
  "is_space c = (c \<in> set [CHR '' '', CHR 0x09, CHR 0x0A, CHR 0x0B, CHR 0x0C, CHR 0x0D])"




section \<open>The projected equipment table\<close>

text \<open>
  A row of the in-memory equipment table (\<open>equip_df\<close>) after the projection: the three
  numeric columns are numbers, the other six are the cells as read.
\<close>

record equip =
  eq_id :: int
  eq_nome :: cell
  eq_numero_serie :: cell
  eq_descricao :: cell
  eq_quantidade :: int
  eq_status :: cell
  eq_data_cadastro :: cell
  eq_estoque_minimo :: int
  eq_categoria :: cell

text \<open>
  \<open>_find_sheet_row_index_by_id\<close>. The table built from no record has no column, so
  \<open>df['id']\<close> raises \<open>KeyError\<close>, which the function does not catch; otherwise the first
  row with the identifier gives its position plus two, and \<open>IndexError\<close> on the empty list
  of matches gives \<open>None\<close>.
\<close>

datatype lookup = Found nat | NotFound | KeyError

fun first_index :: "int list \<Rightarrow> int \<Rightarrow> nat option" where
  "first_index [] k = None"
| "first_index (x # xs) k =
     (if x = k then Some 0 else map_option Suc (first_index xs k))"

definition find_sheet_row_index_by_id :: "int list \<Rightarrow> int \<Rightarrow> lookup" where
  "find_sheet_row_index_by_id ids record_id =
     (if ids = [] then KeyError
      else case first_index ids record_id of
             None \<Rightarrow> NotFound
           | Some i \<Rightarrow> Found (i + 2))"

section \<open>Stock movements\<close>





text \<open>The new quantity and status of an item, by kind of movement.\<close>

definition em_estoque :: string where "em_estoque = ''Em Estoque''"



text \<open>
  The second loop. For each validated item: the new quantity and status, the two cell
  updates when the identifier resolves to a row of the projected table, one call of
  \<open>_get_next_id\<close> on the movement sheet, and the record added to the pending list.
  A \<open>KeyError\<close> of the lookup leaves the loop with what was written so far.
\<close>

datatype 'a run = Returned 'a | Raised


datatype result = Done | Rejected error | Crashed


section \<open>Transfers between sectors\<close>

definition nl :: char where
  "nl = CHR 0x0A"

definition kit_name :: string where
  "kit_name = ''Kit (2x Monitores e 1 desktop)''"

text \<open>The form of a sector transfer: the combo boxes and entries the handler reads;
  \<open>obs\<close> is the text of the observation box after \<open>strip\<close>.\<close>

record setor_form =
  tipo_equip :: string
  origem :: string
  destino :: string
  responsavel :: string
  obs :: string
  chamado :: string
  solicitante :: string
  entry_patrimonio :: string
  entry_servicetag :: string
  kit_p1 :: string
  kit_s1 :: string
  kit_p2 :: string
  kit_s2 :: string
  kit_p3 :: string
  kit_s3 :: string

text \<open>
  The first half of \<open>registrar_movimentacao_setor\<close>: the two variables \<open>patrimonio\<close>
  and \<open>servicetag\<close> after the branch on the kind of equipment. Both start empty. In the
  kit branch the source assigns the joined asset tags to \<open>patrimonio\<close> and the joined
  service tags to a variable named \<open>ervicetag\<close>, which is never read: \<open>servicetag\<close> keeps
  its initial value.
\<close>

definition tags_of_form :: "setor_form \<Rightarrow> error + (string \<times> string)" where
  "tags_of_form f =
     (if tipo_equip f = kit_name then
        (if kit_p1 f = [] \<or> kit_s1 f = [] \<or> kit_p2 f = [] \<or> kit_s2 f = []
            \<or> kit_p3 f = [] \<or> kit_s3 f = []
         then Inl IncompleteKit
         else Inr (''Monitor 1: '' @ kit_p1 f @ [nl] @ ''Monitor 2: '' @ kit_p2 f @ [nl]
                     @ ''Desktop: '' @ kit_p3 f,
                   []))
      else
        (if entry_patrimonio f = [] then Inl MissingField
         else if tipo_equip f \<in> set [''Monitor'', ''Desktop''] \<and> entry_servicetag f = []
         then Inl MissingField
         else Inr (entry_patrimonio f, entry_servicetag f)))"

text \<open>
  \<open>registrar_movimentacao_setor\<close>. \<open>now\<close> is the formatted clock reading
  \<open>datetime.now().strftime(...)\<close>.
\<close>

definition registrar_movimentacao_setor :: "string \<Rightarrow> setor_form \<Rightarrow> store \<Rightarrow> result \<times> store" where
  "registrar_movimentacao_setor now f st =
     (case tags_of_form f of
        Inl e \<Rightarrow> (Rejected e, st)
      | Inr (patrimonio, servicetag) \<Rightarrow>
          if tipo_equip f = [] \<or> origem f = [] \<or> destino f = [] \<or> responsavel f = []
             \<or> chamado f = [] \<or> solicitante f = []
          then (Rejected MissingField, st)
          else if origem f = destino f then (Rejected InvalidRoute, st)
          else
            (let (novo_id, st1) = next_id MovSetores st;
                 nova_linha = [I novo_id, S now, S (responsavel f), S (tipo_equip f),
                               S patrimonio, S servicetag, S (origem f), S (destino f),
                               S (obs f), S (chamado f), S (solicitante f), S ''Pendente'']
             in (Done, append_row MovSetores nova_linha st1)))"

text \<open>The spreadsheet state with no data rows and no call made.\<close>

definition empty_store :: store where
  "empty_store = \<lparr>rows = (\<lambda>_. []), log = []\<rparr>"

text \<open>A kit form with all six sub-fields filled in.\<close>

definition kit_form :: setor_form where
  "kit_form = \<lparr>tipo_equip = kit_name, origem = ''TI'', destino = ''RH'',
     responsavel = ''Ana'', obs = [], chamado = ''42'', solicitante = ''Bia'',
     entry_patrimonio = [], entry_servicetag = [],
     kit_p1 = ''P1'', kit_s1 = ''S1'', kit_p2 = ''P2'', kit_s2 = ''S2'',
     kit_p3 = ''P3'', kit_s3 = ''S3''\<rparr>"

section \<open>Describing a batch\<close>

text \<open>
  The functions of this section are not part of the program: they name what the loops of
  \<open>confirmar_movimentacao\<close> do for one item, so that the loops can be characterised.
\<close>









text \<open>The cell at row \<open>r\<close> and column \<open>c\<close> of a worksheet, both 1-based with the header at
  row 1; blank outside the data.\<close>

definition cell_at :: "nat \<Rightarrow> nat \<Rightarrow> cell list list \<Rightarrow> cell" where
  "cell_at r c rs =
     (if 2 \<le> r \<and> r - 2 < length rs \<and> 1 \<le> c \<and> c - 1 < length (rs ! (r - 2))
      then rs ! (r - 2) ! (c - 1) else blank)"




section \<open>Adding and editing equipment\<close>





section \<open>The derived status\<close>



section \<open>Dates and the history filter\<close>

text \<open>
  A timestamp is a number of seconds since 1970-01-01 00:00:00; \<open>None\<close> is the library's
  \<open>NaT\<close>. The calendar is the proleptic Gregorian one.
\<close>

definition is_leap :: "nat \<Rightarrow> bool" where
  "is_leap y = (y mod 4 = 0 \<and> (y mod 100 \<noteq> 0 \<or> y mod 400 = 0))"

definition days_in_month :: "nat \<Rightarrow> nat \<Rightarrow> nat" where
  "days_in_month y m =
     (if m = 2 then (if is_leap y then 29 else 28)
      else if m \<in> {4, 6, 9, 11} then 30 else 31)"

definition days_before_year :: "nat \<Rightarrow> int" where
  "days_before_year y =
     (let p = int y - 1 in p * 365 + p div 4 - p div 100 + p div 400)"

definition days_before_month :: "nat \<Rightarrow> nat \<Rightarrow> int" where
  "days_before_month y m = int (sum_list (map (days_in_month y) [1..<m]))"

text \<open>The day number of a date, zero at 1970-01-01 (whose ordinal is 719163).\<close>

definition day_number :: "nat \<Rightarrow> nat \<Rightarrow> nat \<Rightarrow> int" where
  "day_number y m d = days_before_year y + days_before_month y m + int d - 719163"

text \<open>The bounds of a timestamp with nanosecond resolution in 64 bits, in whole seconds.\<close>

definition in_bounds :: "int \<Rightarrow> bool" where
  "in_bounds t = (- 9223372036 \<le> t \<and> t \<le> 9223372036)"

text \<open>
  The timestamp of the six fields of a date and time, when they name a moment of the
  calendar inside the bounds.
\<close>

definition timestamp_of :: "nat \<Rightarrow> nat \<Rightarrow> nat \<Rightarrow> nat \<Rightarrow> nat \<Rightarrow> nat \<Rightarrow> int option" where
  "timestamp_of y m d hh mm ss =
     (if 1 \<le> y \<and> 1 \<le> m \<and> m \<le> 12 \<and> 1 \<le> d \<and> d \<le> days_in_month y m
         \<and> hh \<le> 23 \<and> mm \<le> 59 \<and> ss \<le> 59
         \<and> in_bounds (day_number y m d * 86400 + int hh * 3600 + int mm * 60 + int ss)
      then Some (day_number y m d * 86400 + int hh * 3600 + int mm * 60 + int ss)
      else None)"

text \<open>Splitting a text at every occurrence of a separator.\<close>

fun split_on :: "char \<Rightarrow> string \<Rightarrow> string list" where
  "split_on sep [] = [[]]"
| "split_on sep (c # cs) =
     (if c = sep then [] # split_on sep cs
      else case split_on sep cs of
             [] \<Rightarrow> [[c]]
           | w # ws \<Rightarrow> (c # w) # ws)"

text \<open>
  The numeric fields of the two formats: one or two digits for \<open>%m\<close>, \<open>%H\<close>, \<open>%M\<close> and
  \<open>%S\<close>; the same for \<open>%d\<close>, which also takes a space before a single digit; exactly
  four digits for \<open>%Y\<close>.
\<close>

definition field2 :: "string \<Rightarrow> nat option" where
  "field2 s = (if isdigit s \<and> length s \<le> 2 then Some (dec_val s) else None)"

definition field_d :: "string \<Rightarrow> nat option" where
  "field_d s =
     (case s of
        [c, d] \<Rightarrow> if c = CHR '' '' \<and> is_ascii_digit d then Some (digit_val d) else field2 s
      | _ \<Rightarrow> field2 s)"

definition field_Y :: "string \<Rightarrow> nat option" where
  "field_Y s = (if isdigit s \<and> length s = 4 then Some (dec_val s) else None)"

text \<open>\<open>pd.to_datetime(text, format='%d/%m/%Y')\<close>; \<open>None\<close> is the \<open>ValueError\<close>.\<close>

definition parse_date :: "string \<Rightarrow> int option" where
  "parse_date s =
     (case split_on CHR ''/'' s of
        [ds, ms, ys] \<Rightarrow>
          (case (field_d ds, field2 ms, field_Y ys) of
             (Some d, Some m, Some y) \<Rightarrow> timestamp_of y m d 0 0 0
           | _ \<Rightarrow> None)
      | _ \<Rightarrow> None)"

text \<open>
  \<open>pd.to_datetime(text, format='%d-%m-%Y %H:%M:%S', errors='coerce')\<close>. The blank of
  the format stands for a run of white space.
\<close>

definition parse_datetime :: "string \<Rightarrow> int option" where
  "parse_datetime s =
     (case split_on CHR ''-'' s of
        [ds, ms, rest] \<Rightarrow>
          (if length rest < 5 \<or> \<not> is_space (rest ! 4) then None
           else case split_on CHR '':'' (dropWhile is_space (drop 4 rest)) of
                  [hs, mins, secs] \<Rightarrow>
                    (case (field_d ds, field2 ms, field_Y (take 4 rest)) of
                       (Some d, Some m, Some y) \<Rightarrow>
                         (case (field2 hs, field2 mins, field2 secs) of
                            (Some hh, Some mm, Some ss) \<Rightarrow> timestamp_of y m d hh mm ss
                          | _ \<Rightarrow> None)
                     | _ \<Rightarrow> None)
                | _ \<Rightarrow> None)
      | _ \<Rightarrow> None)"

text \<open>The column \<open>data_movimentacao_dt\<close> of a movement: a cell that is not a text of the
  format gives \<open>NaT\<close>.\<close>

fun data_movimentacao_dt :: "cell \<Rightarrow> int option" where
  "data_movimentacao_dt (S s) = parse_datetime s"
| "data_movimentacao_dt (I n) = None"

text \<open>A row of the projected movement table, with the columns the report reads.\<close>

record mov =
  mv_id_movimentacao :: "int option"
  mv_id_equipamento_fk :: "int option"
  mv_data_movimentacao :: cell

datatype filtro = Todos | Intervalo

text \<open>
  The bounds of the date filter in \<open>gerar_relatorio\<close>: the end bound is the end date plus
  one day minus one second. A bound that does not parse, or an end bound past the range
  of timestamps, stops the report.
\<close>

definition limites :: "bool \<Rightarrow> filtro \<Rightarrow> string \<Rightarrow> string \<Rightarrow> error + (int option \<times> int option)" where
  "limites incluir_historico filtro_data data_inicio_str data_fim_str =
     (if incluir_historico \<and> filtro_data = Intervalo then
        (case parse_date data_inicio_str of
           None \<Rightarrow> Inl InvalidDateFormat
         | Some data_inicio_dt \<Rightarrow>
             (case parse_date data_fim_str of
                None \<Rightarrow> Inl InvalidDateFormat
              | Some fim \<Rightarrow>
                  if in_bounds (fim + (86400 - 1)) then Inr (Some data_inicio_dt, Some (fim + (86400 - 1)))
                  else Inl InvalidDateFormat))
      else Inr (None, None))"

text \<open>Comparisons of timestamps: any comparison with \<open>NaT\<close> (or with no bound) is false.\<close>

definition ts_le :: "int option \<Rightarrow> int option \<Rightarrow> bool" where
  "ts_le a b = (case (a, b) of (Some x, Some y) \<Rightarrow> x \<le> y | _ \<Rightarrow> False)"

text \<open>The history of one item in the report: its movements, filtered by the bounds when
  the filter is \<open>intervalo\<close>.\<close>

definition historico_item :: "filtro \<Rightarrow> int option \<Rightarrow> int option \<Rightarrow> mov list \<Rightarrow> int \<Rightarrow> mov list" where
  "historico_item filtro_data data_inicio_dt data_fim_dt mov_df item_id =
     (let hist_df = filter (\<lambda>m. mv_id_equipamento_fk m = Some item_id) mov_df
      in if filtro_data = Intervalo \<and> hist_df \<noteq> []
         then filter (\<lambda>m. ts_le data_inicio_dt (data_movimentacao_dt (mv_data_movimentacao m))
                          \<and> ts_le (data_movimentacao_dt (mv_data_movimentacao m)) data_fim_dt)
                hist_df
         else hist_df)"

text \<open>
  The histories that \<open>gerar_relatorio\<close> puts in the report, one per visible item, in
  the order of the items. A movement table built from no record has no column: the
  first item whose history is asked for then raises \<open>KeyError\<close>, which the handler
  reports as a failure of the report.
\<close>

definition historicos_relatorio :: "bool \<Rightarrow> filtro \<Rightarrow> string \<Rightarrow> string \<Rightarrow> mov list \<Rightarrow> int list
    \<Rightarrow> error + mov list list" where
  "historicos_relatorio incluir_historico filtro_data data_inicio_str data_fim_str mov_df ids =
     (case limites incluir_historico filtro_data data_inicio_str data_fim_str of
        Inl e \<Rightarrow> Inl e
      | Inr (data_inicio_dt, data_fim_dt) \<Rightarrow>
          if incluir_historico \<and> ids \<noteq> [] \<and> mov_df = [] then Inl ReportFailure
          else Inr (map (\<lambda>item_id. if incluir_historico
                                   then historico_item filtro_data data_inicio_dt data_fim_dt
                                          mov_df item_id
                                   else []) ids))"

section \<open>The projection of the sheets\<close>

text \<open>
  \<open>pd.to_numeric\<close> on a cell: a number is itself; whether a text reads as a number is
  the library's matter, taken as the parameter \<open>p\<close> (\<open>None\<close> when it does not).
\<close>

fun to_numeric :: "(string \<Rightarrow> int option) \<Rightarrow> cell \<Rightarrow> int option" where
  "to_numeric p (I n) = Some n"
| "to_numeric p (S s) = p s"

text \<open>\<open>pd.to_numeric(column, errors='coerce').fillna(1)\<close> on one cell.\<close>

definition coerce_fillna1 :: "(string \<Rightarrow> int option) \<Rightarrow> cell \<Rightarrow> int" where
  "coerce_fillna1 p c = (case to_numeric p c of None \<Rightarrow> 1 | Some n \<Rightarrow> n)"

text \<open>Column \<open>k\<close> (1-based) of a row as read; a missing cell reads as blank.\<close>

definition col :: "nat \<Rightarrow> cell list \<Rightarrow> cell" where
  "col k row = (if 1 \<le> k \<and> k - 1 < length row then row ! (k - 1) else blank)"

text \<open>
  The equipment part of \<open>refresh_dataframes\<close>: every row of the sheet becomes a row of
  the table, with the columns \<open>id\<close>, \<open>quantidade\<close> and \<open>estoque_minimo\<close> made numeric.
\<close>

definition project_equip :: "(string \<Rightarrow> int option) \<Rightarrow> cell list \<Rightarrow> equip" where
  "project_equip p row =
     \<lparr>eq_id = coerce_fillna1 p (col 1 row), eq_nome = col 2 row, eq_numero_serie = col 3 row,
      eq_descricao = col 4 row, eq_quantidade = coerce_fillna1 p (col 5 row),
      eq_status = col 6 row, eq_data_cadastro = col 7 row,
      eq_estoque_minimo = coerce_fillna1 p (col 8 row), eq_categoria = col 9 row\<rparr>"

definition refresh_equip :: "(string \<Rightarrow> int option) \<Rightarrow> store \<Rightarrow> equip list" where
  "refresh_equip p st = map (project_equip p) (rows st Equipamentos)"

section \<open>Regularization of sector transfers\<close>

definition regularizado :: string where
  "regularizado = ''Regularizado''"

text \<open>
  \<open>batch_update\<close> with one-cell ranges of column L, the twelfth: each pair is a row and
  the value written to its cell; the updates go in one request.
\<close>

definition batch_update :: "sheet \<Rightarrow> (nat \<times> cell) list \<Rightarrow> store \<Rightarrow> store" where
  "batch_update sh updates st =
     st\<lparr>rows := (rows st)(sh := foldl (\<lambda>rs u. put_cell (fst u) 12 (snd u) rs) (rows st sh) updates),
        log := log st @ [BatchUpdate sh updates]\<rparr>"

text \<open>
  The sector-transfer part of \<open>refresh_dataframes\<close>, on the identifier column: the
  table takes the column as read, and \<open>pd.to_numeric\<close> without \<open>coerce\<close> then replaces
  it by numbers unless one cell is not numeric, in which case it raises and the column
  stays as read.
\<close>

definition refresh_setores :: "(string \<Rightarrow> int option) \<Rightarrow> store \<Rightarrow> cell list" where
  "refresh_setores p st =
     (let ids = map first_col (rows st MovSetores)
      in case those (map (to_numeric p) ids) of
           None \<Rightarrow> ids
         | Some ns \<Rightarrow> map I ns)"

text \<open>
  The loop of \<open>marcar_como_regularizado\<close> over the selected identifiers. The lookup
  makes the column numeric again before it searches; \<open>KeyError\<close> and \<open>ValueError\<close> are
  not caught.
\<close>

fun coletar :: "(string \<Rightarrow> int option) \<Rightarrow> cell list \<Rightarrow> int list \<Rightarrow> (nat \<times> cell) list
    \<Rightarrow> (nat \<times> cell) list run" where
  "coletar p df_ids [] updates = Returned updates"
| "coletar p df_ids (mov_id # rest) updates =
     (case those (map (to_numeric p) df_ids) of
        None \<Rightarrow> Raised
      | Some ns \<Rightarrow>
          (case find_sheet_row_index_by_id ns mov_id of
             KeyError \<Rightarrow> Raised
           | NotFound \<Rightarrow> coletar p df_ids rest updates
           | Found row_index \<Rightarrow>
               coletar p df_ids rest (updates @ [(row_index, S regularizado)])))"

definition marcar_como_regularizado :: "(string \<Rightarrow> int option) \<Rightarrow> int list \<Rightarrow> cell list \<Rightarrow> store
    \<Rightarrow> result \<times> store" where
  "marcar_como_regularizado p selected df_ids st =
     (if selected = [] then (Rejected NothingSelected, st)
      else case coletar p df_ids selected [] of
             Raised \<Rightarrow> (Crashed, st)
           | Returned updates \<Rightarrow>
               if updates = [] then (Rejected RecordNotFound, st)
               else (Done, batch_update MovSetores updates st))"

text \<open>
  The action as the user runs it: the handler on the current table and store, followed
  on success by \<open>refresh_all_data\<close>, which reloads the table from the store.
\<close>

definition regularizar :: "(string \<Rightarrow> int option) \<Rightarrow> int list \<Rightarrow> cell list \<times> store
    \<Rightarrow> result \<times> cell list \<times> store" where
  "regularizar p selected app =
     (case marcar_como_regularizado p selected (fst app) (snd app) of
        (Done, st') \<Rightarrow> (Done, refresh_setores p st', st')
      | (res, st') \<Rightarrow> (res, fst app, st'))"

text \<open>The rows that the loop collects: for each selected identifier found in the numeric
  column, the row of its first occurrence.\<close>

definition alvos :: "int list \<Rightarrow> int list \<Rightarrow> nat list" where
  "alvos ns selected =
     concat (map (\<lambda>k. case first_index ns k of None \<Rightarrow> [] | Some i \<Rightarrow> [i + 2]) selected)"

text \<open>Writing one value to column 12 of a list of rows, in order.\<close>

definition marcar_linhas :: "cell \<Rightarrow> cell list list \<Rightarrow> nat list \<Rightarrow> cell list list" where
  "marcar_linhas v rs rl = foldl (\<lambda>rs r. put_cell r 12 v rs) rs rl"

text \<open>Some selected identifier resolves to a row of the sheet: the selection is not empty,
  every identifier of the sheet is numeric, and one of the selected ones is among them.\<close>

definition resolve :: "(string \<Rightarrow> int option) \<Rightarrow> int list \<Rightarrow> store \<Rightarrow> bool" where
  "resolve p selected st =
     (selected \<noteq> [] \<and>
      (case those (map (to_numeric p) (map first_col (rows st MovSetores))) of
         None \<Rightarrow> False
       | Some ns \<Rightarrow> alvos ns selected \<noteq> []))"

section \<open>Example data\<close>









text \<open>Two movements of the item with identifier 5.\<close>

definition mov_exemplo :: "int \<Rightarrow> string \<Rightarrow> mov" where
  "mov_exemplo k d = \<lparr>mv_id_movimentacao = Some k, mv_id_equipamento_fk = Some 5,
                       mv_data_movimentacao = S d\<rparr>"

definition movs_exemplo :: "mov list" where
  "movs_exemplo = [mov_exemplo 1 ''31-01-2025 23:59:59'', mov_exemplo 2 ''01-02-2025 00:00:00'']"

text \<open>A text parser for the examples: digit strings are numbers, nothing else is.\<close>

definition digitos :: "string \<Rightarrow> int option" where
  "digitos s = (if isdigit s then Some (int (dec_val s)) else None)"

text \<open>A sheet whose first row has the text \<open>x\<close> as identifier and whose second row is the
  genuine equipment 1.\<close>

definition linha_sem_id :: "cell list" where
  "linha_sem_id = [S ''x'', S ''cabo'', blank, blank, S ''muitos'', S em_estoque, blank, blank, S ''Cabo'']"

definition linha_um :: "cell list" where
  "linha_um = [I 1, S ''mouse'', blank, blank, I 4, S em_estoque, blank, I 2, S ''Perif'']"

definition store_sem_id :: store where
  "store_sem_id = \<lparr>rows = (\<lambda>_. [])(Equipamentos := [linha_sem_id, linha_um]), log = []\<rparr>"

text \<open>A sector sheet of three transfers, the second already regularized, and the
  application state right after loading it.\<close>

definition linha_setor :: "int \<Rightarrow> string \<Rightarrow> cell list" where
  "linha_setor k status =
     [I k, S ''01-01-2025 10:00:00'', S ''Ana'', S ''Monitor'', S ''123456'', S ''ST1'', S ''TI'',
      S ''RH'', blank, S ''42'', S ''Bia'', S status]"

definition store_setores :: store where
  "store_setores = \<lparr>rows = (\<lambda>_. [])(MovSetores :=
      [linha_setor 1 ''Pendente'', linha_setor 2 regularizado, linha_setor 3 ''Pendente'']), log = []\<rparr>"

definition app_setores :: "cell list \<times> store" where
  "app_setores = (refresh_setores digitos store_setores, store_setores)"


section \<open>Properties of identifier assignment\<close>

lemma foldl_max_eq_Max: "foldl max x xs = Max (set (x # xs))"
proof (induction xs arbitrary: x)
  case Nil
  show ?case by simp
next
  case (Cons y ys)
  have "foldl max x (y # ys) = foldl max (max x y) ys" by simp
  also have "\<dots> = Max (set (max x y # ys))" by (rule Cons.IH)
  also have "\<dots> = Max (set (x # y # ys))"
  proof (cases "ys = []")
    case True
    then show ?thesis by simp
  next
    case False
    then show ?thesis by (simp add: max.assoc)
  qed
  finally show ?case .
qed

lemma max_default_nonempty: "xs \<noteq> [] \<Longrightarrow> max_default d xs = Max (set xs)"
  by (cases xs) (simp_all only: max_default.simps foldl_max_eq_Max, simp)

lemma code_point_ascii: "b < 128 \<Longrightarrow> code_point b [] = Some b"
  by (simp add: code_point_def lead_bits_def)

lemma utf8_decode_ascii: "list_all (\<lambda>b. b < 128) bs \<Longrightarrow> utf8_decode bs = Some bs"
  by (induction bs) (simp_all add: seq_len_def code_point_ascii)

lemma is_ascii_digit_iff:
  "is_ascii_digit c \<longleftrightarrow> 48 \<le> (of_char c :: nat) \<and> (of_char c :: nat) \<le> 57"
proof
  assume "is_ascii_digit c"
  then show "48 \<le> (of_char c :: nat) \<and> (of_char c :: nat) \<le> 57"
    by (auto simp: is_ascii_digit_def)
next
  assume a: "48 \<le> (of_char c :: nat) \<and> (of_char c :: nat) \<le> 57"
  define n where "n = (of_char c :: nat)"
  from a have "48 \<le> n \<and> n \<le> 57" by (simp add: n_def)
  then have "n = 48 \<or> n = 49 \<or> n = 50 \<or> n = 51 \<or> n = 52 \<or> n = 53 \<or> n = 54 \<or> n = 55
      \<or> n = 56 \<or> n = 57"
    by arith
  then have "n \<in> (of_char ` set ''0123456789'')" by auto
  then obtain d where d: "d \<in> set ''0123456789''" "(of_char c :: nat) = of_char d"
    unfolding n_def by blast
  from d(2) have "c = d" by (simp only: of_char_eq_iff)
  with d(1) show "is_ascii_digit c" by (simp only: is_ascii_digit_def)
qed

lemma those_Some: "those (map (\<lambda>x. Some (f x)) xs) = Some (map f xs)"
  by (induction xs) simp_all

lemma not_over_limit: "n \<le> 640 \<Longrightarrow> \<not> over_limit ud n"
  by (simp add: over_limit_def)

lemma ndigits_small: "n < 10 \<Longrightarrow> ndigits n = 1"
  by (subst ndigits.simps) simp

lemma char_decimal_digit:
  "is_ascii_digit c \<Longrightarrow> char_decimal ud (of_char c) = Some (digit_val c)"
  by (simp add: is_ascii_digit_iff char_decimal_def digit_val_def)

lemma char_isdigit_ascii:
  "(of_char c :: nat) < 128 \<Longrightarrow> char_isdigit ud (of_char c) = is_ascii_digit c"
  by (simp add: is_ascii_digit_iff char_isdigit_def)

lemma str_raises_plain: "plain_cell c \<Longrightarrow> \<not> str_raises ud c"
  by (cases c) (simp_all add: not_over_limit)

lemma cell_isdigit_plain: "plain_cell c \<Longrightarrow> cell_isdigit_ucd ud c = cell_isdigit c"
proof (cases c)
  case (I n)
  then show ?thesis by simp
next
  case (S s)
  assume "plain_cell c"
  with S have a: "list_all (\<lambda>c. (of_char c :: nat) < 128) s" by simp
  then have d: "utf8_decode (map of_char s) = Some (map of_char s)"
    by (intro utf8_decode_ascii) (simp add: list_all_iff)
  have "list_all (char_isdigit ud) (map of_char s) = list_all is_ascii_digit s"
    using a by (induction s) (simp_all add: char_isdigit_ascii)
  with S d show ?thesis by (simp add: isdigit_def)
qed

lemma cell_int_plain:
  assumes "plain_cell c" "cell_isdigit c"
  shows "cell_int_ucd ud c = Some (cell_int c)"
proof (cases c)
  case (I n)
  then show ?thesis by simp
next
  case (S s)
  with assms have a: "list_all (\<lambda>c. (of_char c :: nat) < 128) s" and g: "list_all is_ascii_digit s"
    and l: "length s \<le> 640"
    by (simp_all add: isdigit_def)
  from a have d: "utf8_decode (map of_char s) = Some (map of_char s)"
    by (intro utf8_decode_ascii) (simp add: list_all_iff)
  from l have o: "\<not> over_limit ud (length (map of_char s :: nat list))"
    by (simp add: not_over_limit)
  have "map (char_decimal ud) (map of_char s) = map (\<lambda>c. Some (digit_val c)) s"
    using g by (induction s) (simp_all add: char_decimal_digit)
  then have t: "those (map (char_decimal ud) (map of_char s)) = Some (map digit_val s)"
    by (simp only: those_Some)
  have "foldl (\<lambda>acc d. 10 * acc + d) 0 (map digit_val s) = dec_val s"
    by (simp add: dec_val_def foldl_map)
  with S d t o show ?thesis by simp
qed

lemma int_ids_plain:
  "list_all plain_cell ids \<Longrightarrow> int_ids ud ids = Some (map cell_int (filter cell_isdigit ids))"
  by (induction ids) (simp_all add: str_raises_plain cell_isdigit_plain cell_int_plain)

text \<open>On the columns of the handlers \<open>_get_next_id\<close> returns, and \<open>get_next_id\<close> is what
  it returns, whatever the interpreter.\<close>

lemma get_next_id_plain:
  "list_all plain_cell ids \<Longrightarrow> get_next_id_ucd ud ids = Inr (get_next_id ids)"
  by (simp add: get_next_id_ucd_def get_next_id_def int_ids_plain)

lemma int_ids_None:
  "int_ids ud ids = None \<longleftrightarrow>
     (\<exists>c \<in> set ids. str_raises ud c \<or> (cell_isdigit_ucd ud c \<and> cell_int_ucd ud c = None))"
  by (induction ids) (auto split: option.splits)

lemma int_ids_Some:
  "\<forall>c \<in> set ids. \<not> str_raises ud c \<and> (cell_isdigit_ucd ud c \<longrightarrow> cell_int_ucd ud c \<noteq> None) \<Longrightarrow>
   int_ids ud ids = Some (map (the \<circ> cell_int_ucd ud) (filter (cell_isdigit_ucd ud) ids))"
  by (induction ids) auto

lemma decode_sup2: "utf8_decode (map of_char sup2) = Some [178]"
  by (simp add: sup2_def seq_len_def code_point_def lead_bits_def)

lemma decode_arabic34: "utf8_decode (map of_char arabic34) = Some [1635, 1636]"
  by (simp add: arabic34_def seq_len_def code_point_def lead_bits_def)

lemma decode_setes: "utf8_decode (map of_char setes) = Some (replicate 4301 55)"
proof -
  have "utf8_decode (map of_char setes) = Some (map of_char setes)"
    by (rule utf8_decode_ascii) (simp add: setes_def list_all_iff)
  then show ?thesis by (simp add: setes_def)
qed

lemma get_next_id_ucd_returns:
  assumes "\<forall>c \<in> set ids. \<not> str_raises ud c \<and> (cell_isdigit_ucd ud c \<longrightarrow> cell_int_ucd ud c \<noteq> None)"
  shows "get_next_id_ucd ud ids =
           Inr (if filter (cell_isdigit_ucd ud) ids = [] then 1
                else Max (set (map (the \<circ> cell_int_ucd ud) (filter (cell_isdigit_ucd ud) ids))) + 1)"
proof -
  let ?ns = "map (the \<circ> cell_int_ucd ud) (filter (cell_isdigit_ucd ud) ids)"
  have s: "int_ids ud ids = Some ?ns" using assms by (rule int_ids_Some)
  show ?thesis
  proof (cases "filter (cell_isdigit_ucd ud) ids = []")
    case True
    with s show ?thesis by (simp add: get_next_id_ucd_def)
  next
    case False
    then have n: "?ns \<noteq> []" "ids \<noteq> []" by auto
    from n(1) have "max_default 0 ?ns = Max (set ?ns)" by (rule max_default_nonempty)
    with s n(2) False show ?thesis by (simp add: get_next_id_ucd_def)
  qed
qed

lemma get_next_id_ucd_raises:
  assumes "\<exists>c \<in> set ids. str_raises ud c \<or> (cell_isdigit_ucd ud c \<and> cell_int_ucd ud c = None)"
  shows "get_next_id_ucd ud ids = Inl ValueError"
proof -
  from assms have "int_ids ud ids = None" by (simp only: int_ids_None)
  moreover from assms have "ids \<noteq> []" by auto
  ultimately show ?thesis by (simp add: get_next_id_ucd_def)
qed

lemma tres_plain:
  "cell_isdigit_ucd ud (S ''3'')" "cell_int_ucd ud (S ''3'') = Some 3" "\<not> str_raises ud (S ''3'')"
proof -
  have p: "plain_cell (S ''3'')" "cell_isdigit (S ''3'')"
    by (simp_all add: isdigit_def is_ascii_digit_def)
  from p(1) have "cell_isdigit_ucd ud (S ''3'') = cell_isdigit (S ''3'')"
    by (rule cell_isdigit_plain)
  with p(2) show "cell_isdigit_ucd ud (S ''3'')" by (simp only:)
  from p have "cell_int_ucd ud (S ''3'') = Some (cell_int (S ''3''))" by (rule cell_int_plain)
  then show "cell_int_ucd ud (S ''3'') = Some 3"
    by (simp add: dec_val_def digit_val_def del: cell_int_ucd.simps)
  show "\<not> str_raises ud (S ''3'')" by simp
qed

lemma sup2_digit:
  "cell_isdigit_ucd ud (S sup2)" "cell_int_ucd ud (S sup2) = None"
  "get_next_id_ucd ud [S ''3'', S sup2] = Inl ValueError"
proof -
  show d: "cell_isdigit_ucd ud (S sup2)"
    by (simp add: decode_sup2 char_isdigit_def)
  show i: "cell_int_ucd ud (S sup2) = None"
    by (simp add: decode_sup2 char_decimal_def)
  show "get_next_id_ucd ud [S ''3'', S sup2] = Inl ValueError"
    by (rule get_next_id_ucd_raises) (simp add: d i del: cell_isdigit_ucd.simps cell_int_ucd.simps)
qed

text \<open>
  C4. \<open>nextId\<close> on an identifier column converts the entries that pass \<open>isdigit\<close>.
  When each of them converts it returns their maximum plus one, or one when there is
  none: 1 on an empty table and 8 on a table whose identifiers are 3, 7 and the text x.
  When one of them does not convert it raises \<open>ValueError\<close> and returns nothing:
  superscript two passes \<open>isdigit\<close> and does not convert, so that the column of the texts
  3 and superscript two makes it raise instead of returning 4.
\<close>

theorem get_next_id_ucd_value_error:
  "((\<forall>c \<in> set ids. \<not> str_raises ud c \<and> (cell_isdigit_ucd ud c \<longrightarrow> cell_int_ucd ud c \<noteq> None)) \<longrightarrow>
      get_next_id_ucd ud ids =
        Inr (if filter (cell_isdigit_ucd ud) ids = [] then 1
             else Max (set (map (the \<circ> cell_int_ucd ud) (filter (cell_isdigit_ucd ud) ids))) + 1))
   \<and> ((\<exists>c \<in> set ids. str_raises ud c \<or> (cell_isdigit_ucd ud c \<and> cell_int_ucd ud c = None)) \<longrightarrow>
      get_next_id_ucd ud ids = Inl ValueError)
   \<and> cell_isdigit_ucd ud (S sup2) \<and> cell_int_ucd ud (S sup2) = None
   \<and> get_next_id_ucd ud [S ''3'', S sup2] = Inl ValueError
   \<and> get_next_id_ucd ud [] = Inr 1
   \<and> get_next_id_ucd ud [I 3, I 7, S ''x''] = Inr 8"
proof (intro conjI impI)
  show "get_next_id_ucd ud [] = Inr 1" by (simp add: get_next_id_ucd_def)
  have "list_all plain_cell [I 3, I 7, S ''x'']" by (simp add: ndigits_small)
  then have "get_next_id_ucd ud [I 3, I 7, S ''x''] = Inr (get_next_id [I 3, I 7, S ''x''])"
    by (rule get_next_id_plain)
  then show "get_next_id_ucd ud [I 3, I 7, S ''x''] = Inr 8"
    by (simp add: get_next_id_def isdigit_def is_ascii_digit_def)
  show "cell_isdigit_ucd ud (S sup2)" by (rule sup2_digit(1))
  show "cell_int_ucd ud (S sup2) = None" by (rule sup2_digit(2))
  show "get_next_id_ucd ud [S ''3'', S sup2] = Inl ValueError" by (rule sup2_digit(3))
next
  assume "\<forall>c \<in> set ids. \<not> str_raises ud c \<and> (cell_isdigit_ucd ud c \<longrightarrow> cell_int_ucd ud c \<noteq> None)"
  then show "get_next_id_ucd ud ids =
      Inr (if filter (cell_isdigit_ucd ud) ids = [] then 1
           else Max (set (map (the \<circ> cell_int_ucd ud) (filter (cell_isdigit_ucd ud) ids))) + 1)"
    by (rule get_next_id_ucd_returns)
next
  assume "\<exists>c \<in> set ids. str_raises ud c \<or> (cell_isdigit_ucd ud c \<and> cell_int_ucd ud c = None)"
  then show "get_next_id_ucd ud ids = Inl ValueError"
    by (rule get_next_id_ucd_raises)
qed

text \<open>C4 at the example interpreter: the column with the Arabic-Indic text for 34 gives
  35, and a column with a text of 4301 digits raises.\<close>

theorem get_next_id_ucd_value_error_witness:
  "cell_isdigit_ucd ucd_exemplo (S ''3'') \<and> cell_int_ucd ucd_exemplo (S ''3'') = Some 3
   \<and> cell_isdigit_ucd ucd_exemplo (S arabic34) \<and> cell_int_ucd ucd_exemplo (S arabic34) = Some 34
   \<and> get_next_id_ucd ucd_exemplo [S ''3'', S arabic34] = Inr 35
   \<and> cell_isdigit_ucd ucd_exemplo (S setes) \<and> cell_int_ucd ucd_exemplo (S setes) = None
   \<and> get_next_id_ucd ucd_exemplo [S ''3'', S setes] = Inl ValueError
   \<and> get_next_id_ucd ucd_exemplo [S ''3'', S sup2] = Inl ValueError"
proof -
  note t = tres_plain [where ud = ucd_exemplo]
  have a: "cell_isdigit_ucd ucd_exemplo (S arabic34)"
    "cell_int_ucd ucd_exemplo (S arabic34) = Some 34" "\<not> str_raises ucd_exemplo (S arabic34)"
    by (simp_all add: decode_arabic34 char_isdigit_def char_decimal_def ucd_exemplo_def
        over_limit_def)
  have l: "cell_isdigit_ucd ucd_exemplo (S setes)" "cell_int_ucd ucd_exemplo (S setes) = None"
    by (simp_all add: decode_setes char_isdigit_def over_limit_def ucd_exemplo_def list_all_iff)
  note th1 = get_next_id_ucd_value_error [where ud = ucd_exemplo and ids = "[S ''3'', S arabic34]"]
  note th2 = get_next_id_ucd_value_error [where ud = ucd_exemplo and ids = "[S ''3'', S setes]"]
  have h1: "\<forall>c \<in> set [S ''3'', S arabic34]. \<not> str_raises ucd_exemplo c
      \<and> (cell_isdigit_ucd ucd_exemplo c \<longrightarrow> cell_int_ucd ucd_exemplo c \<noteq> None)"
    by (simp add: t a del: cell_isdigit_ucd.simps cell_int_ucd.simps)
  have f1: "filter (cell_isdigit_ucd ucd_exemplo) [S ''3'', S arabic34] = [S ''3'', S arabic34]"
    by (simp add: t a del: cell_isdigit_ucd.simps)
  from th1 h1 have "get_next_id_ucd ucd_exemplo [S ''3'', S arabic34] =
      Inr (if filter (cell_isdigit_ucd ucd_exemplo) [S ''3'', S arabic34] = [] then 1
           else Max (set (map (the \<circ> cell_int_ucd ucd_exemplo)
                  (filter (cell_isdigit_ucd ucd_exemplo) [S ''3'', S arabic34]))) + 1)"
    by blast
  then have r1: "get_next_id_ucd ucd_exemplo [S ''3'', S arabic34] = Inr 35"
    by (simp add: f1 t a del: cell_isdigit_ucd.simps cell_int_ucd.simps)
  have h2: "\<exists>c \<in> set [S ''3'', S setes]. str_raises ucd_exemplo c
      \<or> (cell_isdigit_ucd ucd_exemplo c \<and> cell_int_ucd ucd_exemplo c = None)"
    by (simp add: l del: cell_isdigit_ucd.simps cell_int_ucd.simps)
  from th2 h2 have r2: "get_next_id_ucd ucd_exemplo [S ''3'', S setes] = Inl ValueError"
    by blast
  from th1 have r3: "get_next_id_ucd ucd_exemplo [S ''3'', S sup2] = Inl ValueError"
    by blast
  from t a r1 l r2 r3 show ?thesis by blast
qed


section \<open>The kit transfer\<close>

text \<open>
  C7 (evaluation at the failing input). For the kit form with the six sub-fields
  \<open>P1, S1, P2, S2, P3, S3\<close> the single appended row holds the three asset tags joined by
  line breaks in its fifth cell, and the empty text in its sixth cell, the service-tag
  field: none of the three service tags is stored.
\<close>

theorem registrar_kit_servicetag_lost:
  "registrar_movimentacao_setor ''01-01-2025 10:00:00'' kit_form empty_store =
     (Done,
      \<lparr>rows = (\<lambda>_. [])(MovSetores :=
          [[I 1, S ''01-01-2025 10:00:00'', S ''Ana'', S kit_name,
            S (''Monitor 1: P1'' @ [nl] @ ''Monitor 2: P2'' @ [nl] @ ''Desktop: P3''),
            S [], S ''TI'', S ''RH'', S [], S ''42'', S ''Bia'', S ''Pendente'']]),
       log = [ColValues MovSetores,
              AppendRow MovSetores
                [I 1, S ''01-01-2025 10:00:00'', S ''Ana'', S kit_name,
                 S (''Monitor 1: P1'' @ [nl] @ ''Monitor 2: P2'' @ [nl] @ ''Desktop: P3''),
                 S [], S ''TI'', S ''RH'', S [], S ''42'', S ''Bia'', S ''Pendente'']]\<rparr>)"
  by (simp add: registrar_movimentacao_setor_def tags_of_form_def kit_form_def empty_store_def
      next_id_def col_values1_def append_row_def get_next_id_def kit_name_def Let_def)

section \<open>The movement loops\<close>





















lemma length_put: "length (put b i v xs) = max (length xs) (Suc i)"
  by (simp add: put_def)

lemma put_nth_same: "put b i v xs ! i = v"
  by (simp add: put_def)

lemma put_nth_other: "j \<noteq> i \<Longrightarrow> j < length xs \<Longrightarrow> put b i v xs ! j = xs ! j"
  by (simp add: put_def nth_append)

lemma put_nth_other_pad: "j \<noteq> i \<Longrightarrow> j < max (length xs) (Suc i) \<Longrightarrow> put b i v xs ! j = (if j < length xs then xs ! j else b)"
  by (auto simp add: put_def nth_append)

lemma cell_at_put_same:
  "2 \<le> r \<Longrightarrow> 1 \<le> c \<Longrightarrow> cell_at r c (put_cell r c v rs) = v"
  by (auto simp add: cell_at_def put_cell_def length_put put_nth_same max_def)

lemma cell_at_put_other_col:
  "2 \<le> r \<Longrightarrow> 1 \<le> c \<Longrightarrow> 1 \<le> c' \<Longrightarrow> c \<noteq> c' \<Longrightarrow>
   cell_at r c (put_cell r c' v rs) = cell_at r c rs"
  by (auto simp add: cell_at_def put_cell_def length_put put_nth_same put_nth_other_pad max_def)

















lemma foldl_skip:
  "(\<And>a. g a x = a) \<Longrightarrow> foldl g a (xs @ x # ys) = foldl g a (xs @ ys)"
  by simp


















section \<open>The derived status of a written row\<close>




lemma cell_at_put_other_row:
  assumes "r \<noteq> r'"
  shows "cell_at r c (put_cell r' c' v rs) = cell_at r c rs"
proof (cases "r' < 2 \<or> c' < 1 \<or> r < 2")
  case True
  then show ?thesis by (auto simp: put_cell_def cell_at_def)
next
  case False
  define row where "row = put blank (c' - 1) v (if r' - 2 < length rs then rs ! (r' - 2) else [])"
  define rs' where "rs' = put [] (r' - 2) row rs"
  from False assms have ne: "r - 2 \<noteq> r' - 2" by arith
  have p: "put_cell r' c' v rs = rs'"
    using False by (simp add: put_cell_def rs'_def row_def)
  have len: "length rs' = max (length rs) (Suc (r' - 2))"
    by (simp add: rs'_def length_put)
  have nth: "r - 2 < length rs' \<Longrightarrow> rs' ! (r - 2) = (if r - 2 < length rs then rs ! (r - 2) else [])"
    using ne unfolding rs'_def len [unfolded rs'_def] by (rule put_nth_other_pad)
  show ?thesis
  proof (cases "r - 2 < length rs")
    case True
    then have "r - 2 < length rs'" by (simp add: len)
    with nth True show ?thesis by (simp add: p cell_at_def)
  next
    case f: False
    show ?thesis
    proof (cases "r - 2 < length rs'")
      case True
      with nth f have "rs' ! (r - 2) = []" by simp
      with f show ?thesis by (simp add: p cell_at_def)
    next
      case False
      with f show ?thesis by (simp add: p cell_at_def)
    qed
  qed
qed
















section \<open>The date filter of the report\<close>

lemma timestamp_of_midnight: "timestamp_of y m d 0 0 0 = Some b \<Longrightarrow> b mod 86400 = 0"
  by (auto simp add: timestamp_of_def split: if_splits)

lemma parse_date_midnight: "parse_date s = Some b \<Longrightarrow> b mod 86400 = 0"
  unfolding parse_date_def
  by (auto split: list.splits option.splits dest: timestamp_of_midnight)

lemma end_of_day_iff:
  assumes "(b::int) mod 86400 = 0"
  shows "t \<le> b + (86400 - 1) \<longleftrightarrow> t div 86400 \<le> b div 86400"
proof -
  define q where "q = t div 86400"
  define r where "r = t mod 86400"
  define k where "k = b div 86400"
  have t: "t = 86400 * q + r" by (simp add: q_def r_def)
  have r: "0 \<le> r" "r < 86400" by (simp_all add: r_def)
  have b: "b = 86400 * k" using assms by (simp add: k_def mod_eq_0_iff_dvd)
  have "86400 * q + r \<le> 86400 * k + 86399 \<longleftrightarrow> q \<le> k"
    using r by linarith
  then show ?thesis
    unfolding q_def [symmetric] k_def [symmetric] by (simp add: t b)
qed

lemma ts_le_both:
  "(ts_le (Some a) x \<and> ts_le x (Some e)) = (case x of None \<Rightarrow> False | Some t \<Rightarrow> a \<le> t \<and> t \<le> e)"
  by (simp add: ts_le_def split: option.splits)

lemma historico_item_intervalo:
  "historico_item Intervalo (Some a) (Some e) mov_df item_id =
     filter (\<lambda>m. mv_id_equipamento_fk m = Some item_id
                \<and> (case data_movimentacao_dt (mv_data_movimentacao m) of
                      None \<Rightarrow> False
                    | Some t \<Rightarrow> a \<le> t \<and> t \<le> e)) mov_df"
proof (cases "filter (\<lambda>m. mv_id_equipamento_fk m = Some item_id) mov_df = []")
  case True
  then have "\<forall>m \<in> set mov_df. mv_id_equipamento_fk m \<noteq> Some item_id"
    by (simp add: filter_empty_conv)
  then have "filter (\<lambda>m. mv_id_equipamento_fk m = Some item_id
                \<and> (case data_movimentacao_dt (mv_data_movimentacao m) of
                      None \<Rightarrow> False
                    | Some t \<Rightarrow> a \<le> t \<and> t \<le> e)) mov_df = []"
    by (simp add: filter_empty_conv)
  with True show ?thesis by (simp add: historico_item_def)
next
  case False
  then show ?thesis
    by (simp add: historico_item_def ts_le_both conj_commute)
qed

lemma limites_intervalo:
  assumes "parse_date ini = Some a" "parse_date fim = Some b" "in_bounds (b + (86400 - 1))"
  shows "limites True Intervalo ini fim = Inr (Some a, Some (b + (86400 - 1)))"
  using assms by (simp add: limites_def)

lemma historicos_intervalo:
  assumes "parse_date ini = Some a" "parse_date fim = Some b" "in_bounds (b + (86400 - 1))"
    and ne: "mov_df \<noteq> []"
  shows "historicos_relatorio True Intervalo ini fim mov_df ids =
     Inr (map (\<lambda>item_id.
            filter (\<lambda>m. mv_id_equipamento_fk m = Some item_id
                       \<and> (case data_movimentacao_dt (mv_data_movimentacao m) of
                             None \<Rightarrow> False
                           | Some t \<Rightarrow> a \<le> t \<and> t div 86400 \<le> b div 86400)) mov_df) ids)"
proof -
  have m: "b mod 86400 = 0" using assms(2) by (rule parse_date_midnight)
  have h: "\<And>item_id. historico_item Intervalo (Some a) (Some (b + (86400 - 1))) mov_df item_id =
      filter (\<lambda>m. mv_id_equipamento_fk m = Some item_id
                       \<and> (case data_movimentacao_dt (mv_data_movimentacao m) of
                             None \<Rightarrow> False
                           | Some t \<Rightarrow> a \<le> t \<and> t div 86400 \<le> b div 86400)) mov_df"
    by (simp only: historico_item_intervalo end_of_day_iff [OF m])
  have "map (historico_item Intervalo (Some a) (Some (b + (86400 - 1))) mov_df) ids =
        map (\<lambda>item_id.
            filter (\<lambda>m. mv_id_equipamento_fk m = Some item_id
                       \<and> (case data_movimentacao_dt (mv_data_movimentacao m) of
                             None \<Rightarrow> False
                           | Some t \<Rightarrow> a \<le> t \<and> t div 86400 \<le> b div 86400)) mov_df) ids"
    by (rule map_cong [OF refl]) (rule h)
  then show ?thesis
    using ne
    by (simp only: historicos_relatorio_def limites_intervalo [OF assms(1,2,3)] sum.case
        prod.case if_True if_False simp_thms)
qed

lemma parse_date_0101: "parse_date ''01/01/2025'' = Some 1735689600"
  by (simp add: parse_date_def field_d_def field2_def field_Y_def isdigit_def is_ascii_digit_def
      dec_val_def digit_val_def timestamp_of_def days_in_month_def is_leap_def day_number_def
      days_before_year_def days_before_month_def in_bounds_def upt_rec)

lemma parse_date_3101: "parse_date ''31/01/2025'' = Some 1738281600"
  by (simp add: parse_date_def field_d_def field2_def field_Y_def isdigit_def is_ascii_digit_def
      dec_val_def digit_val_def timestamp_of_def days_in_month_def is_leap_def day_number_def
      days_before_year_def days_before_month_def in_bounds_def upt_rec)

lemma parse_datetime_3101: "parse_datetime ''31-01-2025 23:59:59'' = Some 1738367999"
  by (simp add: parse_datetime_def is_space_def field_d_def field2_def field_Y_def isdigit_def
      is_ascii_digit_def dec_val_def digit_val_def timestamp_of_def days_in_month_def is_leap_def
      day_number_def days_before_year_def days_before_month_def in_bounds_def upt_rec)

lemma parse_datetime_0102: "parse_datetime ''01-02-2025 00:00:00'' = Some 1738368000"
  by (simp add: parse_datetime_def is_space_def field_d_def field2_def field_Y_def isdigit_def
      is_ascii_digit_def dec_val_def digit_val_def timestamp_of_def days_in_month_def is_leap_def
      day_number_def days_before_year_def days_before_month_def in_bounds_def upt_rec)

lemma in_bounds_3101: "in_bounds (1738281600 + (86400 - 1))"
  by (simp add: in_bounds_def)

lemma movs_exemplo_not_Nil: "movs_exemplo \<noteq> []"
  by (simp add: movs_exemplo_def)

lemma historicos_exemplo:
  "historicos_relatorio True Intervalo ''01/01/2025'' ''31/01/2025'' movs_exemplo [5]
     = Inr [[mov_exemplo 1 ''31-01-2025 23:59:59'']]"
  unfolding historicos_intervalo [OF parse_date_0101 parse_date_3101 in_bounds_3101
      movs_exemplo_not_Nil]
  by (simp add: movs_exemplo_def mov_exemplo_def parse_datetime_3101 parse_datetime_0102)

text \<open>
  C8. In a report with history and the \<open>intervalo\<close> filter whose two bounds parse, on a
  movement table that is not empty, the
  end bound is the start of the day after the end date minus one second, and a movement
  of an item is in the item's history exactly when its timestamp is not before the start
  bound and its calendar day is not after the end date: the whole end day is included,
  through 23:59:59. With the bounds 01/01/2025 and 31/01/2025 the movement of
  31-01-2025 23:59:59 is included and the one of 01-02-2025 00:00:00 is not.
\<close>

theorem intervalo_end_inclusive:
  "(parse_date ini = Some a \<and> parse_date fim = Some b \<and> in_bounds (b + (86400 - 1))
    \<and> mov_df \<noteq> [] \<longrightarrow>
      limites True Intervalo ini fim = Inr (Some a, Some (b + (86400 - 1)))
      \<and> historicos_relatorio True Intervalo ini fim mov_df ids =
          Inr (map (\<lambda>item_id.
                 filter (\<lambda>m. mv_id_equipamento_fk m = Some item_id
                            \<and> (case data_movimentacao_dt (mv_data_movimentacao m) of
                                  None \<Rightarrow> False
                                | Some t \<Rightarrow> a \<le> t \<and> t div 86400 \<le> b div 86400)) mov_df) ids))
   \<and> historicos_relatorio True Intervalo ''01/01/2025'' ''31/01/2025''
        [mov_exemplo 1 ''31-01-2025 23:59:59'', mov_exemplo 2 ''01-02-2025 00:00:00''] [5]
      = Inr [[mov_exemplo 1 ''31-01-2025 23:59:59'']]"
  using limites_intervalo [of ini a fim b] historicos_intervalo [of ini a fim b mov_df ids]
    historicos_exemplo
  by (simp add: movs_exemplo_def)

text \<open>C8 at the bounds 01/01/2025 and 31/01/2025.\<close>

theorem intervalo_end_inclusive_witness:
  "parse_date ''01/01/2025'' = Some 1735689600 \<and> parse_date ''31/01/2025'' = Some 1738281600
   \<and> in_bounds (1738281600 + (86400 - 1)) \<and> movs_exemplo \<noteq> []
   \<and> limites True Intervalo ''01/01/2025'' ''31/01/2025'' = Inr (Some 1735689600, Some 1738367999)
   \<and> data_movimentacao_dt (S ''31-01-2025 23:59:59'') = Some 1738367999
   \<and> data_movimentacao_dt (S ''01-02-2025 00:00:00'') = Some 1738368000
   \<and> historicos_relatorio True Intervalo ''01/01/2025'' ''31/01/2025'' movs_exemplo [5]
      = Inr [[mov_exemplo 1 ''31-01-2025 23:59:59'']]"
proof -
  note t = intervalo_end_inclusive [of "''01/01/2025''" 1735689600 "''31/01/2025''" 1738281600
             movs_exemplo "[5]"]
  from t parse_date_0101 parse_date_3101 in_bounds_3101 movs_exemplo_not_Nil
  have "limites True Intervalo ''01/01/2025'' ''31/01/2025''
          = Inr (Some 1735689600, Some (1738281600 + (86400 - 1)))"
    by blast
  then have l: "limites True Intervalo ''01/01/2025'' ''31/01/2025''
          = Inr (Some 1735689600, Some 1738367999)"
    by simp
  from t have h: "historicos_relatorio True Intervalo ''01/01/2025'' ''31/01/2025'' movs_exemplo [5]
      = Inr [[mov_exemplo 1 ''31-01-2025 23:59:59'']]"
    unfolding movs_exemplo_def by blast
  have d: "data_movimentacao_dt (S ''31-01-2025 23:59:59'') = Some 1738367999"
    "data_movimentacao_dt (S ''01-02-2025 00:00:00'') = Some 1738368000"
    by (simp_all add: parse_datetime_3101 parse_datetime_0102)
  from parse_date_0101 parse_date_3101 in_bounds_3101 movs_exemplo_not_Nil l h d
  show ?thesis by blast
qed

section \<open>The projected identifier\<close>

lemma first_index_append:
  "\<forall>x \<in> set xs. x \<noteq> k \<Longrightarrow> first_index (xs @ k # ys) k = Some (length xs)"
  by (induction xs) auto

text \<open>
  C10. In the projection, an equipment row whose identifier does not read as a number is
  given the identifier 1, the default that the quantity and the minimum stock get as
  well; it is neither dropped nor left without identifier. By identifier it is then the
  same as a genuine equipment 1: the two have equal identifiers, the history joined on
  its identifier is the history of 1, and the lookup of 1 resolves to its row when no
  row before it has the identifier 1.
\<close>

theorem unparseable_id_defaults_to_one:
  "(to_numeric p (col 1 bad) = None \<longrightarrow>
     eq_id (project_equip p bad) = 1
     \<and> length (refresh_equip p st) = length (rows st Equipamentos)
     \<and> (to_numeric p (col 1 genuine) = Some 1 \<longrightarrow>
          eq_id (project_equip p bad) = eq_id (project_equip p genuine))
     \<and> historico_item filtro_data data_inicio_dt data_fim_dt mov_df (eq_id (project_equip p bad))
         = historico_item filtro_data data_inicio_dt data_fim_dt mov_df 1
     \<and> (rows st Equipamentos = pre @ bad # post
          \<and> list_all (\<lambda>r. eq_id (project_equip p r) \<noteq> 1) pre \<longrightarrow>
          find_sheet_row_index_by_id (map eq_id (refresh_equip p st)) 1 = Found (length pre + 2)))
   \<and> (to_numeric p (col 5 bad) = None \<longrightarrow> eq_quantidade (project_equip p bad) = 1)
   \<and> (to_numeric p (col 8 bad) = None \<longrightarrow> eq_estoque_minimo (project_equip p bad) = 1)"
proof (intro impI conjI)
  assume a: "to_numeric p (col 1 bad) = None"
  then show i: "eq_id (project_equip p bad) = 1"
    by (simp add: project_equip_def coerce_fillna1_def)
  show "length (refresh_equip p st) = length (rows st Equipamentos)"
    by (simp add: refresh_equip_def)
  show "historico_item filtro_data data_inicio_dt data_fim_dt mov_df (eq_id (project_equip p bad))
         = historico_item filtro_data data_inicio_dt data_fim_dt mov_df 1"
    by (simp only: i)
  {
    assume "to_numeric p (col 1 genuine) = Some 1"
    then show "eq_id (project_equip p bad) = eq_id (project_equip p genuine)"
      using a by (simp add: project_equip_def coerce_fillna1_def)
  }
  {
    assume h: "rows st Equipamentos = pre @ bad # post
          \<and> list_all (\<lambda>r. eq_id (project_equip p r) \<noteq> 1) pre"
    then have "\<forall>x \<in> set (map (eq_id \<circ> project_equip p) pre). x \<noteq> 1"
      by (auto simp: list_all_iff)
    from first_index_append [OF this, of "map (eq_id \<circ> project_equip p) post"]
    show "find_sheet_row_index_by_id (map eq_id (refresh_equip p st)) 1 = Found (length pre + 2)"
      using h i by (simp add: refresh_equip_def find_sheet_row_index_by_id_def)
  }
next
  assume "to_numeric p (col 5 bad) = None"
  then show "eq_quantidade (project_equip p bad) = 1"
    by (simp add: project_equip_def coerce_fillna1_def)
next
  assume "to_numeric p (col 8 bad) = None"
  then show "eq_estoque_minimo (project_equip p bad) = 1"
    by (simp add: project_equip_def coerce_fillna1_def)
qed

text \<open>C10 at a sheet whose first row has the text \<open>x\<close> as identifier and whose
  second row is the equipment 1: the lookup of 1 gives row 2, the first.\<close>

theorem unparseable_id_defaults_to_one_witness:
  "to_numeric digitos (col 1 linha_sem_id) = None
   \<and> to_numeric digitos (col 1 linha_um) = Some 1
   \<and> to_numeric digitos (col 5 linha_sem_id) = None
   \<and> to_numeric digitos (col 8 linha_sem_id) = None
   \<and> rows store_sem_id Equipamentos = [] @ linha_sem_id # [linha_um]
   \<and> eq_id (project_equip digitos linha_sem_id) = 1
   \<and> eq_id (project_equip digitos linha_sem_id) = eq_id (project_equip digitos linha_um)
   \<and> eq_quantidade (project_equip digitos linha_sem_id) = 1
   \<and> eq_estoque_minimo (project_equip digitos linha_sem_id) = 1
   \<and> length (refresh_equip digitos store_sem_id) = 2
   \<and> find_sheet_row_index_by_id (map eq_id (refresh_equip digitos store_sem_id)) 1 = Found 2"
proof -
  have a: "to_numeric digitos (col 1 linha_sem_id) = None"
    "to_numeric digitos (col 1 linha_um) = Some 1"
    "to_numeric digitos (col 5 linha_sem_id) = None"
    "to_numeric digitos (col 8 linha_sem_id) = None"
    by (simp_all add: col_def linha_sem_id_def linha_um_def digitos_def isdigit_def
        is_ascii_digit_def blank_def)
  have r: "rows store_sem_id Equipamentos = [] @ linha_sem_id # [linha_um]"
    by (simp add: store_sem_id_def)
  have l: "length (rows store_sem_id Equipamentos) = 2" "length ([]::cell list list) + 2 = 2"
    "list_all (\<lambda>r. eq_id (project_equip digitos r) \<noteq> 1) []"
    by (simp_all add: store_sem_id_def)
  note t = unparseable_id_defaults_to_one [where p = digitos and bad = linha_sem_id
      and genuine = linha_um and st = store_sem_id and pre = "[]" and post = "[linha_um]"]
  from t a have c1: "eq_id (project_equip digitos linha_sem_id) = 1" by blast
  from t a have c2: "eq_id (project_equip digitos linha_sem_id) = eq_id (project_equip digitos linha_um)"
    by blast
  from t a have c3: "eq_quantidade (project_equip digitos linha_sem_id) = 1" by blast
  from t a have c4: "eq_estoque_minimo (project_equip digitos linha_sem_id) = 1" by blast
  from t a have "length (refresh_equip digitos store_sem_id) = length (rows store_sem_id Equipamentos)"
    by blast
  then have c5: "length (refresh_equip digitos store_sem_id) = 2" by (simp only: l)
  from t a r l(3) have "find_sheet_row_index_by_id (map eq_id (refresh_equip digitos store_sem_id)) 1
      = Found (length ([]::cell list list) + 2)"
    by blast
  then have c6: "find_sheet_row_index_by_id (map eq_id (refresh_equip digitos store_sem_id)) 1 = Found 2"
    by (simp only: l)
  from a r c1 c2 c3 c4 c5 c6 show ?thesis by blast
qed

section \<open>Regularizing twice\<close>

lemma put_cell_same_value:
  assumes "cell_at r c rs = v" "v \<noteq> blank"
  shows "put_cell r c v rs = rs"
proof -
  from assms have rng: "2 \<le> r" "r - 2 < length rs" "1 \<le> c" "c - 1 < length (rs ! (r - 2))"
    and val: "rs ! (r - 2) ! (c - 1) = v"
    by (auto simp: cell_at_def split: if_splits)
  have "put blank (c - 1) v (rs ! (r - 2)) = rs ! (r - 2)"
    using rng(4) val list_update_id [of "rs ! (r - 2)" "c - 1"] by (simp add: put_def)
  then show ?thesis
    using rng by (simp add: put_cell_def put_def)
qed

lemma marcar_linhas_snoc:
  "marcar_linhas v rs (rl @ [r]) = put_cell r 12 v (marcar_linhas v rs rl)"
  by (simp add: marcar_linhas_def)

lemma marcar_linhas_Cons:
  "marcar_linhas v rs (r # rl) = marcar_linhas v (put_cell r 12 v rs) rl"
  by (simp add: marcar_linhas_def)

lemma cell_at_marcar_linhas_in:
  "r \<in> set rl \<Longrightarrow> \<forall>x \<in> set rl. 2 \<le> x \<Longrightarrow> cell_at r 12 (marcar_linhas v rs rl) = v"
proof (induction rl rule: rev_induct)
  case Nil
  then show ?case by simp
next
  case (snoc x xs)
  show ?case
  proof (cases "r = x")
    case True
    with snoc.prems show ?thesis
      by (simp add: marcar_linhas_snoc cell_at_put_same)
  next
    case False
    with snoc show ?thesis
      by (simp add: marcar_linhas_snoc cell_at_put_other_row)
  qed
qed

lemma cell_at_marcar_linhas_out:
  "r \<notin> set rl \<Longrightarrow> cell_at r c (marcar_linhas v rs rl) = cell_at r c rs"
  by (induction rl rule: rev_induct) (simp_all add: marcar_linhas_snoc cell_at_put_other_row marcar_linhas_def)

lemma cell_at_marcar_linhas_other_col:
  "c \<noteq> 12 \<Longrightarrow> 1 \<le> c \<Longrightarrow> \<forall>x \<in> set rl. 2 \<le> x \<Longrightarrow>
   cell_at r c (marcar_linhas v rs rl) = cell_at r c rs"
proof (induction rl rule: rev_induct)
  case Nil
  show ?case by (simp add: marcar_linhas_def)
next
  case (snoc x xs)
  show ?case
  proof (cases "r = x")
    case True
    with snoc show ?thesis
      by (simp add: marcar_linhas_snoc cell_at_put_other_col)
  next
    case False
    with snoc show ?thesis
      by (simp add: marcar_linhas_snoc cell_at_put_other_row)
  qed
qed

lemma marcar_linhas_fixed:
  "\<forall>r \<in> set rl. cell_at r 12 rs = v \<Longrightarrow> v \<noteq> blank \<Longrightarrow> marcar_linhas v rs rl = rs"
  by (induction rl) (simp_all add: marcar_linhas_Cons put_cell_same_value marcar_linhas_def)

lemma marcar_linhas_twice:
  assumes "\<forall>x \<in> set rl. 2 \<le> x" "v \<noteq> blank"
  shows "marcar_linhas v (marcar_linhas v rs rl) rl = marcar_linhas v rs rl"
  using assms by (intro marcar_linhas_fixed) (simp_all add: cell_at_marcar_linhas_in)

lemma first_index_less: "first_index xs k = Some i \<Longrightarrow> i < length xs"
  by (induction xs arbitrary: i) (auto split: if_splits)

lemma alvos_range: "r \<in> set (alvos ns selected) \<Longrightarrow> 2 \<le> r \<and> r - 2 < length ns"
  by (auto simp: alvos_def split: option.splits dest: first_index_less [OF sym])

lemma alvos_Nil: "alvos [] selected = []"
  by (induction selected) (simp_all add: alvos_def)

lemma alvos_Cons:
  "alvos ns (k # rest) = (case first_index ns k of None \<Rightarrow> [] | Some i \<Rightarrow> [i + 2]) @ alvos ns rest"
  by (simp add: alvos_def)

lemma those_numeric: "those (map (to_numeric p) (map I ns)) = Some ns"
  by (induction ns) simp_all

lemma coletar_char:
  assumes "those (map (to_numeric p) df_ids) = Some ns" "ns \<noteq> []"
  shows "coletar p df_ids selected updates =
           Returned (updates @ map (\<lambda>r. (r, S regularizado)) (alvos ns selected))"
proof (induction selected arbitrary: updates)
  case Nil
  show ?case by (simp add: alvos_def)
next
  case (Cons k rest)
  show ?case
    using assms
    by (cases "first_index ns k")
       (simp_all add: Cons.IH alvos_Cons find_sheet_row_index_by_id_def)
qed

lemma coletar_raises:
  assumes "those (map (to_numeric p) df_ids) = None
           \<or> those (map (to_numeric p) df_ids) = Some []"
    and "selected \<noteq> []"
  shows "coletar p df_ids selected updates = Raised"
  using assms by (cases selected) (auto simp: find_sheet_row_index_by_id_def)

lemma first_col_put_blank: "1 \<le> j \<Longrightarrow> first_col (put blank j v row) = first_col row"
  by (cases row; cases j) (simp_all add: put_def first_col_def)

lemma put_cell_in_range:
  "2 \<le> r \<Longrightarrow> r - 2 < length rs \<Longrightarrow>
   put_cell r 12 v rs = rs[r - 2 := put blank 11 v (rs ! (r - 2))]"
  by (simp add: put_cell_def put_def)

lemma map_first_col_put_cell:
  assumes "2 \<le> r" "r - 2 < length rs"
  shows "map first_col (put_cell r 12 v rs) = map first_col rs"
proof -
  have "map first_col (rs[r - 2 := put blank 11 v (rs ! (r - 2))])
        = (map first_col rs)[r - 2 := first_col (rs ! (r - 2))]"
    by (simp add: map_update first_col_put_blank)
  also have "\<dots> = map first_col rs"
    using assms(2) by (simp add: list_update_same_conv)
  finally show ?thesis by (simp add: put_cell_in_range [OF assms])
qed

lemma map_first_col_marcar_linhas:
  "\<forall>r \<in> set rl. 2 \<le> r \<and> r - 2 < length rs \<Longrightarrow>
   map first_col (marcar_linhas v rs rl) = map first_col rs"
proof (induction rl arbitrary: rs)
  case Nil
  show ?case by (simp add: marcar_linhas_def)
next
  case (Cons r rl)
  have l: "length (put_cell r 12 v rs) = length rs"
    using Cons.prems by (simp add: put_cell_in_range)
  have "map first_col (marcar_linhas v (put_cell r 12 v rs) rl) = map first_col (put_cell r 12 v rs)"
    using Cons.prems by (intro Cons.IH) (simp add: l)
  then show ?case
    using Cons.prems by (simp add: marcar_linhas_Cons map_first_col_put_cell)
qed

lemma rows_batch_update:
  "rows (batch_update MovSetores (map (\<lambda>r. (r, v)) rl) st) MovSetores
     = marcar_linhas v (rows st MovSetores) rl"
  by (simp add: batch_update_def marcar_linhas_def foldl_map)

lemma rows_batch_update_other:
  "sh \<noteq> MovSetores \<Longrightarrow> rows (batch_update MovSetores us st) sh = rows st sh"
  by (simp add: batch_update_def)

lemma those_length: "those xs = Some ys \<Longrightarrow> length ys = length xs"
  by (induction xs arbitrary: ys) (auto split: option.splits)

lemma regularizar_done:
  assumes cons: "fst app = refresh_setores p (snd app)"
    and res: "resolve p selected (snd app)"
    and ns: "those (map (to_numeric p) (map first_col (rows (snd app) MovSetores))) = Some ns"
  shows "regularizar p selected app =
           (Done, map I ns,
            batch_update MovSetores (map (\<lambda>r. (r, S regularizado)) (alvos ns selected)) (snd app))"
    and "map first_col (rows (batch_update MovSetores
            (map (\<lambda>r. (r, S regularizado)) (alvos ns selected)) (snd app)) MovSetores)
         = map first_col (rows (snd app) MovSetores)"
proof -
  let ?st = "snd app"
  let ?us = "map (\<lambda>r. (r, S regularizado)) (alvos ns selected)"
  from res ns have sel: "selected \<noteq> []" and al: "alvos ns selected \<noteq> []"
    by (simp_all add: resolve_def)
  from al have nne: "ns \<noteq> []" by (auto simp: alvos_Nil)
  have df: "fst app = map I ns" using cons ns by (simp add: refresh_setores_def)
  have "coletar p (fst app) selected [] = Returned ?us"
    using coletar_char [OF those_numeric nne, of p selected "[]"] by (simp add: df)
  then have m: "marcar_como_regularizado p selected (fst app) ?st = (Done, batch_update MovSetores ?us ?st)"
    using sel al by (simp add: marcar_como_regularizado_def)
  have len: "length ns = length (rows ?st MovSetores)"
    using those_length [OF ns] by simp
  have "\<forall>r \<in> set (alvos ns selected). 2 \<le> r \<and> r - 2 < length (rows ?st MovSetores)"
    using alvos_range [of _ ns selected] len by auto
  then show fc: "map first_col (rows (batch_update MovSetores ?us ?st) MovSetores)
         = map first_col (rows ?st MovSetores)"
    by (simp add: rows_batch_update map_first_col_marcar_linhas)
  have "refresh_setores p (batch_update MovSetores ?us ?st) = map I ns"
    unfolding refresh_setores_def Let_def fc using ns by simp
  then show "regularizar p selected app = (Done, map I ns, batch_update MovSetores ?us ?st)"
    by (simp add: regularizar_def m)
qed

lemma regularizar_not:
  assumes cons: "fst app = refresh_setores p (snd app)"
    and res: "\<not> resolve p selected (snd app)"
  shows "\<exists>r. r \<noteq> Done \<and> regularizar p selected app = (r, app)"
proof (cases "selected = []")
  case True
  then show ?thesis
    by (simp add: regularizar_def marcar_como_regularizado_def prod_eq_iff)
next
  case sel: False
  let ?ids = "map first_col (rows (snd app) MovSetores)"
  show ?thesis
  proof (cases "those (map (to_numeric p) ?ids)")
    case None
    then have "fst app = ?ids" using cons by (simp add: refresh_setores_def)
    with None sel have "coletar p (fst app) selected [] = Raised"
      by (simp add: coletar_raises)
    with sel show ?thesis
      by (simp add: regularizar_def marcar_como_regularizado_def prod_eq_iff)
  next
    case (Some ns)
    then have df: "fst app = map I ns" using cons by (simp add: refresh_setores_def)
    from res sel Some have al: "alvos ns selected = []" by (simp add: resolve_def)
    show ?thesis
    proof (cases "ns = []")
      case True
      with df sel have "coletar p (fst app) selected [] = Raised"
        by (simp add: coletar_raises)
      with sel show ?thesis
        by (simp add: regularizar_def marcar_como_regularizado_def prod_eq_iff)
    next
      case False
      have "coletar p (fst app) selected [] = Returned []"
        using coletar_char [OF those_numeric False, of p selected "[]"] al
        by (simp add: df)
      with sel show ?thesis
        by (simp add: regularizar_def marcar_como_regularizado_def prod_eq_iff)
    qed
  qed
qed

lemma regularizado_not_blank: "S regularizado \<noteq> blank"
  by (simp add: regularizado_def blank_def)

lemma alvos_selected:
  assumes "r \<in> set (alvos ns selected)"
  shows "\<exists>k \<in> set selected. find_sheet_row_index_by_id ns k = Found r"
proof -
  from assms obtain k i where k: "k \<in> set selected" "first_index ns k = Some i" "r = i + 2"
    by (fastforce simp: alvos_def split: option.splits)
  from k(2) have "ns \<noteq> []" by (cases ns) auto
  with k have "find_sheet_row_index_by_id ns k = Found r"
    by (simp add: find_sheet_row_index_by_id_def)
  with k(1) show ?thesis by blast
qed

lemma regularizar_twice_done:
  assumes cons: "fst app = refresh_setores p (snd app)"
    and res: "resolve p selected (snd app)"
  shows "\<exists>ns st1 st2.
      those (map (to_numeric p) (map first_col (rows (snd app) MovSetores))) = Some ns
      \<and> regularizar p selected app = (Done, map I ns, st1)
      \<and> regularizar p selected (map I ns, st1) = (Done, map I ns, st2)
      \<and> rows st2 = rows st1
      \<and> rows st1 MovSetores = marcar_linhas (S regularizado) (rows (snd app) MovSetores) (alvos ns selected)"
proof -
  from res obtain ns where
    ns: "those (map (to_numeric p) (map first_col (rows (snd app) MovSetores))) = Some ns"
    by (auto simp: resolve_def split: option.splits)
  let ?us = "map (\<lambda>r. (r, S regularizado)) (alvos ns selected)"
  let ?st1 = "batch_update MovSetores ?us (snd app)"
  let ?st2 = "batch_update MovSetores ?us ?st1"
  note d = regularizar_done [OF cons res ns]
  have fc: "map first_col (rows ?st1 MovSetores) = map first_col (rows (snd app) MovSetores)"
    by (rule d(2))
  have cons1: "fst (map I ns, ?st1) = refresh_setores p (snd (map I ns, ?st1))"
    using ns by (simp add: refresh_setores_def fc)
  have res1: "resolve p selected (snd (map I ns, ?st1))"
    using res by (simp add: resolve_def fc)
  have ns1: "those (map (to_numeric p) (map first_col (rows (snd (map I ns, ?st1)) MovSetores))) = Some ns"
    using ns by (simp add: fc)
  have two: "regularizar p selected (map I ns, ?st1) = (Done, map I ns, ?st2)"
    using regularizar_done(1) [OF cons1 res1 ns1] by simp
  have rng: "\<forall>x \<in> set (alvos ns selected). 2 \<le> x"
    using alvos_range [of _ ns selected] by auto
  have "rows ?st2 sh = rows ?st1 sh" for sh
  proof (cases "sh = MovSetores")
    case True
    then show ?thesis
      by (simp add: rows_batch_update marcar_linhas_twice [OF rng regularizado_not_blank])
  next
    case False
    then show ?thesis by (simp add: rows_batch_update_other)
  qed
  then have eq: "rows ?st2 = rows ?st1" by (simp add: fun_eq_iff)
  have r1: "rows ?st1 MovSetores
      = marcar_linhas (S regularizado) (rows (snd app) MovSetores) (alvos ns selected)"
    by (rule rows_batch_update)
  from ns d(1) two eq r1 show ?thesis by blast
qed

text \<open>
  C9. Regularizing is idempotent on the sector-transfer state. From a state whose table
  was loaded from the store, running the action twice with the same selection gives the
  outcome, the table and the rows of every sheet that running it once gives. When some
  selected identifier resolves the outcome is \<open>Done\<close>, whether or not the transfer was
  already regularized; a status cell that held \<open>Regularizado\<close> still holds it; and a status
  cell that changed was not \<open>Regularizado\<close> before, is \<open>Regularizado\<close> after, and is the
  cell of the row that a selected identifier resolves to.
\<close>

theorem regularizar_idempotent:
  assumes "fst app = refresh_setores p (snd app)"
  shows "let once = regularizar p selected app;
             twice = regularizar p selected (snd once)
         in fst twice = fst once
            \<and> fst (snd twice) = fst (snd once)
            \<and> rows (snd (snd twice)) = rows (snd (snd once))
            \<and> (resolve p selected (snd app) \<longrightarrow> fst once = Done)
            \<and> (\<forall>r. cell_at r 12 (rows (snd app) MovSetores) = S regularizado \<longrightarrow>
                     cell_at r 12 (rows (snd (snd once)) MovSetores) = S regularizado)
            \<and> (\<forall>r. cell_at r 12 (rows (snd (snd once)) MovSetores)
                       \<noteq> cell_at r 12 (rows (snd app) MovSetores) \<longrightarrow>
                     cell_at r 12 (rows (snd app) MovSetores) \<noteq> S regularizado
                     \<and> cell_at r 12 (rows (snd (snd once)) MovSetores) = S regularizado
                     \<and> (\<exists>ns. those (map (to_numeric p) (map first_col (rows (snd app) MovSetores)))
                                 = Some ns
                              \<and> (\<exists>k \<in> set selected. find_sheet_row_index_by_id ns k = Found r)))"
proof (cases "resolve p selected (snd app)")
  case True
  from regularizar_twice_done [OF assms True] obtain ns st1 st2 where
    h: "regularizar p selected app = (Done, map I ns, st1)"
       "those (map (to_numeric p) (map first_col (rows (snd app) MovSetores))) = Some ns"
       "regularizar p selected (map I ns, st1) = (Done, map I ns, st2)"
       "rows st2 = rows st1"
       "rows st1 MovSetores = marcar_linhas (S regularizado) (rows (snd app) MovSetores) (alvos ns selected)"
    by blast
  have rng: "\<forall>x \<in> set (alvos ns selected). 2 \<le> x"
    using alvos_range [of _ ns selected] by auto
  have c: "cell_at r 12 (rows st1 MovSetores) =
      (if r \<in> set (alvos ns selected) then S regularizado
       else cell_at r 12 (rows (snd app) MovSetores))" for r
    by (simp add: h(5) cell_at_marcar_linhas_in [OF _ rng] cell_at_marcar_linhas_out)
  have x1: "cell_at r 12 (rows st1 MovSetores) \<noteq> cell_at r 12 (rows (snd app) MovSetores) \<Longrightarrow>
      cell_at r 12 (rows (snd app) MovSetores) \<noteq> S regularizado
      \<and> cell_at r 12 (rows st1 MovSetores) = S regularizado
      \<and> (\<exists>ns. those (map (to_numeric p) (map first_col (rows (snd app) MovSetores))) = Some ns
               \<and> (\<exists>k \<in> set selected. find_sheet_row_index_by_id ns k = Found r))" for r
  proof -
    assume a: "cell_at r 12 (rows st1 MovSetores) \<noteq> cell_at r 12 (rows (snd app) MovSetores)"
    then have m: "r \<in> set (alvos ns selected)" by (simp add: c split: if_splits)
    then have v: "cell_at r 12 (rows st1 MovSetores) = S regularizado" by (simp add: c)
    with a have "cell_at r 12 (rows (snd app) MovSetores) \<noteq> S regularizado" by simp
    with v h(2) alvos_selected [OF m] show ?thesis by blast
  qed
  have x2: "cell_at r 12 (rows (snd app) MovSetores) = S regularizado \<Longrightarrow>
      cell_at r 12 (rows st1 MovSetores) = S regularizado" for r
    by (simp add: c)
  have t: "regularizar p selected (snd (Done, map I ns, st1)) = (Done, map I ns, st2)"
    by (simp add: h(3))
  note x1a = x1 [THEN conjunct1] and x1b = x1 [THEN conjunct2, THEN conjunct1]
    and x1c = x1 [THEN conjunct2, THEN conjunct2]
  show ?thesis
    unfolding Let_def h(1) h(3) fst_conv snd_conv
    by (intro conjI allI impI refl h(4); (erule x2 | erule x1a | erule x1b | erule x1c))
next
  case False
  from regularizar_not [OF assms False] obtain r where
    "r \<noteq> Done" "regularizar p selected app = (r, app)" by blast
  with False show ?thesis by (simp add: Let_def)
qed

lemma ids_store_setores: "map first_col (rows store_setores MovSetores) = [I 1, I 2, I 3]"
  by (simp add: store_setores_def linha_setor_def first_col_def)

lemma app_setores_table: "fst app_setores = [I 1, I 2, I 3]"
  by (simp add: app_setores_def refresh_setores_def ids_store_setores)

lemma once_setores:
  "regularizar digitos [2, 3] app_setores =
     (Done, [I 1, I 2, I 3],
      batch_update MovSetores [(3, S regularizado), (4, S regularizado)] store_setores)"
proof -
  have c: "coletar digitos [I 1, I 2, I 3] [2, 3] [] = Returned [(3, S regularizado), (4, S regularizado)]"
    by (simp add: find_sheet_row_index_by_id_def)
  have m: "marcar_como_regularizado digitos [2, 3] [I 1, I 2, I 3] (snd app_setores)
           = (Done, batch_update MovSetores [(3, S regularizado), (4, S regularizado)] store_setores)"
    unfolding marcar_como_regularizado_def c by (simp add: app_setores_def)
  have f: "map first_col (rows (batch_update MovSetores [(3, S regularizado), (4, S regularizado)]
              store_setores) MovSetores) = [I 1, I 2, I 3]"
    by (simp add: batch_update_def store_setores_def linha_setor_def put_cell_def put_def first_col_def)
  have rf: "refresh_setores digitos (batch_update MovSetores
              [(3, S regularizado), (4, S regularizado)] store_setores) = [I 1, I 2, I 3]"
    unfolding refresh_setores_def Let_def f by simp
  show ?thesis
    by (simp add: regularizar_def app_setores_table m rf)
qed

lemma status_once_setores:
  "map (col 12) (rows (batch_update MovSetores [(3, S regularizado), (4, S regularizado)]
                   store_setores) MovSetores)
   = [S ''Pendente'', S regularizado, S regularizado]"
  by (simp add: batch_update_def store_setores_def linha_setor_def put_cell_def put_def col_def)

text \<open>C9 at the sheet of three transfers with the second and the third selected: the
  second stays regularized, the third becomes so, and a second run changes nothing.\<close>

theorem regularizar_idempotent_witness:
  "fst app_setores = refresh_setores digitos (snd app_setores)
   \<and> map (col 12) (rows (snd app_setores) MovSetores)
       = [S ''Pendente'', S regularizado, S ''Pendente'']
   \<and> fst (regularizar digitos [2, 3] app_setores) = Done
   \<and> map (col 12) (rows (snd (snd (regularizar digitos [2, 3] app_setores))) MovSetores)
       = [S ''Pendente'', S regularizado, S regularizado]
   \<and> fst (regularizar digitos [2, 3] (snd (regularizar digitos [2, 3] app_setores))) = Done
   \<and> rows (snd (snd (regularizar digitos [2, 3] (snd (regularizar digitos [2, 3] app_setores)))))
       = rows (snd (snd (regularizar digitos [2, 3] app_setores)))"
proof -
  have cons: "fst app_setores = refresh_setores digitos (snd app_setores)"
    by (simp add: app_setores_def)
  have s0: "map (col 12) (rows (snd app_setores) MovSetores)
       = [S ''Pendente'', S regularizado, S ''Pendente'']"
    by (simp add: app_setores_def store_setores_def linha_setor_def col_def)
  have d: "fst (regularizar digitos [2, 3] app_setores) = Done"
    by (simp add: once_setores)
  have s1: "map (col 12) (rows (snd (snd (regularizar digitos [2, 3] app_setores))) MovSetores)
       = [S ''Pendente'', S regularizado, S regularizado]"
    by (simp add: once_setores status_once_setores)
  note t = regularizar_idempotent [OF cons, of "[2, 3]", unfolded Let_def]
  from t d have d2: "fst (regularizar digitos [2, 3] (snd (regularizar digitos [2, 3] app_setores))) = Done"
    by simp
  from t have r: "rows (snd (snd (regularizar digitos [2, 3]
                     (snd (regularizar digitos [2, 3] app_setores)))))
       = rows (snd (snd (regularizar digitos [2, 3] app_setores)))"
    by blast
  from cons s0 d s1 d2 r show ?thesis by blast
qed

end
